theory Spec2Isabelle
  imports Complex_Main "HOL-Library.Multiset"
begin

section \<open>Cards (deck.js)\<close>

text \<open>
  Numbers of the JavaScript source are modelled exactly: counts, card values and the running
  count as integers or naturals, money amounts as rationals (the source halves stakes, so a
  stake of 25 gives 12.5).
\<close>

datatype suit = Spades | Hearts | Diamonds | Clubs

datatype rank = RA | R2 | R3 | R4 | R5 | R6 | R7 | R8 | R9 | R10 | RJ | RQ | RK

definition SUITS :: "suit list" where
  "SUITS = [Spades, Hearts, Diamonds, Clubs]"

definition RANKS :: "rank list" where
  "RANKS = [RA, R2, R3, R4, R5, R6, R7, R8, R9, R10, RJ, RQ, RK]"

text \<open>\<open>getCardValue\<close>: ace 11, face cards 10, otherwise \<open>parseInt(rank)\<close>.\<close>

fun getCardValue :: "rank \<Rightarrow> int" where
  "getCardValue RA = 11"
| "getCardValue RJ = 10"
| "getCardValue RQ = 10"
| "getCardValue RK = 10"
| "getCardValue R2 = 2"
| "getCardValue R3 = 3"
| "getCardValue R4 = 4"
| "getCardValue R5 = 5"
| "getCardValue R6 = 6"
| "getCardValue R7 = 7"
| "getCardValue R8 = 8"
| "getCardValue R9 = 9"
| "getCardValue R10 = 10"

text \<open>
  A card object. \<open>value\<close>, \<open>isAce\<close>, \<open>isFaceCard\<close> and the colour are fixed by
  \<open>createCard\<close> from suit and rank and never written again, so they are functions of the
  record; \<open>faceUp\<close> is the one mutable field.
\<close>

record Card =
  suit :: suit
  rank :: rank
  faceUp :: bool

definition createCard :: "suit \<Rightarrow> rank \<Rightarrow> Card" where
  "createCard s r = \<lparr>suit = s, rank = r, faceUp = True\<rparr>"

definition cvalue :: "Card \<Rightarrow> int" where
  "cvalue c = getCardValue (rank c)"

definition isAce :: "Card \<Rightarrow> bool" where
  "isAce c = (rank c = RA)"

section \<open>Counting systems\<close>

text \<open>
  \<open>COUNTING_SYSTEMS\<close> is a dictionary from the system's name to a table of weights per rank.
  Every table of the source lists all thirteen ranks, so \<open>system[card.rank] || 0\<close> is the
  table's entry.
\<close>

fun hi_lo :: "rank \<Rightarrow> int" where
  "hi_lo RA = -1" | "hi_lo R2 = 1" | "hi_lo R3 = 1" | "hi_lo R4 = 1" | "hi_lo R5 = 1"
| "hi_lo R6 = 1" | "hi_lo R7 = 0" | "hi_lo R8 = 0" | "hi_lo R9 = 0" | "hi_lo R10 = -1"
| "hi_lo RJ = -1" | "hi_lo RQ = -1" | "hi_lo RK = -1"

fun ko :: "rank \<Rightarrow> int" where
  "ko RA = -1" | "ko R2 = 1" | "ko R3 = 1" | "ko R4 = 1" | "ko R5 = 1"
| "ko R6 = 1" | "ko R7 = 1" | "ko R8 = 0" | "ko R9 = 0" | "ko R10 = -1"
| "ko RJ = -1" | "ko RQ = -1" | "ko RK = -1"

fun omega2 :: "rank \<Rightarrow> int" where
  "omega2 RA = 0" | "omega2 R2 = 1" | "omega2 R3 = 1" | "omega2 R4 = 2" | "omega2 R5 = 2"
| "omega2 R6 = 2" | "omega2 R7 = 1" | "omega2 R8 = 0" | "omega2 R9 = -1" | "omega2 R10 = -2"
| "omega2 RJ = -2" | "omega2 RQ = -2" | "omega2 RK = -2"

fun hi_opt1 :: "rank \<Rightarrow> int" where
  "hi_opt1 RA = 0" | "hi_opt1 R2 = 0" | "hi_opt1 R3 = 1" | "hi_opt1 R4 = 1" | "hi_opt1 R5 = 1"
| "hi_opt1 R6 = 1" | "hi_opt1 R7 = 0" | "hi_opt1 R8 = 0" | "hi_opt1 R9 = 0" | "hi_opt1 R10 = -1"
| "hi_opt1 RJ = -1" | "hi_opt1 RQ = -1" | "hi_opt1 RK = -1"

fun hi_opt2 :: "rank \<Rightarrow> int" where
  "hi_opt2 RA = 0" | "hi_opt2 R2 = 1" | "hi_opt2 R3 = 1" | "hi_opt2 R4 = 2" | "hi_opt2 R5 = 2"
| "hi_opt2 R6 = 1" | "hi_opt2 R7 = 1" | "hi_opt2 R8 = 0" | "hi_opt2 R9 = 0" | "hi_opt2 R10 = -2"
| "hi_opt2 RJ = -2" | "hi_opt2 RQ = -2" | "hi_opt2 RK = -2"

definition COUNTING_SYSTEMS :: "string \<Rightarrow> (rank \<Rightarrow> int) option" where
  "COUNTING_SYSTEMS name =
     (if name = ''hi-lo'' then Some hi_lo
      else if name = ''ko'' then Some ko
      else if name = ''omega2'' then Some omega2
      else if name = ''hi-opt1'' then Some hi_opt1
      else if name = ''hi-opt2'' then Some hi_opt2
      else None)"

section \<open>The shoe (class Deck)\<close>

record Deck =
  deckCount :: nat
  cards :: "Card list"
  dealtCards :: "Card list"
  penetration :: rat
  runningCount :: int
  countingSystem :: string

text \<open>One 52-card deck in the order of the two inner loops of \<open>initialize\<close>.\<close>

definition one_deck :: "Card list" where
  "one_deck = concat (map (\<lambda>s. map (\<lambda>r. createCard s r) RANKS) SUITS)"

text \<open>The outer loop of \<open>initialize\<close>: \<open>n\<close> decks, one after the other.\<close>

primrec full_shoe :: "nat \<Rightarrow> Card list" where
  "full_shoe 0 = []"
| "full_shoe (Suc n) = full_shoe n @ one_deck"

definition initialize :: "Deck \<Rightarrow> Deck" where
  "initialize d = d\<lparr>cards := full_shoe (deckCount d), dealtCards := [], runningCount := 0\<rparr>"

text \<open>
  The Fisher-Yates loop \<open>for (i = array.length - 1; i > 0; i--)\<close>. The random source is
  the function \<open>rnd\<close>: \<open>rnd i\<close> is the 32-bit value drawn in the iteration with index \<open>i\<close>,
  and \<open>j = rnd i % (i + 1)\<close>. The fallback \<open>Math.floor(Math.random() * (i + 1))\<close> also
  yields some \<open>j\<close> with \<open>0 \<le> j \<le> i\<close>, which is \<open>rnd i = j\<close> here. The destructuring
  swap reads both elements before it writes.
\<close>

primrec shuffle_loop :: "(nat \<Rightarrow> nat) \<Rightarrow> nat \<Rightarrow> Card list \<Rightarrow> Card list" where
  "shuffle_loop rnd 0 array = array"
| "shuffle_loop rnd (Suc k) array =
     (let i = Suc k;
          j = rnd i mod (i + 1)
      in shuffle_loop rnd k (array[i := array ! j, j := array ! i]))"

definition shuffle :: "(nat \<Rightarrow> nat) \<Rightarrow> Deck \<Rightarrow> Deck" where
  "shuffle rnd d =
     d\<lparr>cards := shuffle_loop rnd (length (cards d) - 1) (cards d),
       dealtCards := [],
       runningCount := 0\<rparr>"

text \<open>\<open>deal\<close> pops the last card of the draw pile; \<open>None\<close> is the source's \<open>null\<close>.\<close>

definition Deck_deal :: "Deck \<Rightarrow> Card option \<times> Deck" where
  "Deck_deal d =
     (if length (cards d) = 0 then (None, d)
      else (Some (last (cards d)),
            d\<lparr>cards := butlast (cards d), dealtCards := dealtCards d @ [last (cards d)]\<rparr>))"

definition updateCount :: "Card option \<Rightarrow> Deck \<Rightarrow> Deck" where
  "updateCount crd d =
     (case crd of
        None \<Rightarrow> d
      | Some c \<Rightarrow>
          if \<not> faceUp c then d
          else (case COUNTING_SYSTEMS (countingSystem d) of
                  None \<Rightarrow> d
                | Some system \<Rightarrow> d\<lparr>runningCount := runningCount d + system (rank c)\<rparr>))"

text \<open>\<open>Math.round\<close> rounds to the nearest integer, a tie going up.\<close>

definition Math_round :: "rat \<Rightarrow> int" where
  "Math_round x = \<lfloor>x + 1 / 2\<rfloor>"

definition decksRemaining :: "Deck \<Rightarrow> rat" where
  "decksRemaining d = of_nat (length (cards d)) / 52"

definition getTrueCount :: "Deck \<Rightarrow> int" where
  "getTrueCount d =
     (if decksRemaining d < 1 / 2 then runningCount d
      else Math_round (of_int (runningCount d) / decksRemaining d))"

definition getRunningCount :: "Deck \<Rightarrow> int" where
  "getRunningCount d = runningCount d"

definition setCountingSystem :: "string \<Rightarrow> Deck \<Rightarrow> Deck" where
  "setCountingSystem system d =
     (case COUNTING_SYSTEMS system of None \<Rightarrow> d | Some _ \<Rightarrow> d\<lparr>countingSystem := system\<rparr>)"

text \<open>
  \<open>needsReshuffle\<close> divides by \<open>deckCount * 52\<close>. For a shoe of no decks JavaScript gives
  \<open>NaN\<close> (nothing dealt; every comparison false) or \<open>Infinity\<close>.
\<close>

definition needsReshuffle :: "Deck \<Rightarrow> bool" where
  "needsReshuffle d =
     (let totalCards = deckCount d * 52
      in if totalCards = 0 then 0 < length (dealtCards d)
         else of_nat (length (dealtCards d)) / of_nat totalCards \<ge> penetration d)"

definition reshuffle :: "(nat \<Rightarrow> nat) \<Rightarrow> Deck \<Rightarrow> Deck" where
  "reshuffle rnd d =
     shuffle rnd (d\<lparr>cards := cards d @ dealtCards d, dealtCards := [], runningCount := 0\<rparr>)"

definition setDeckCount :: "(nat \<Rightarrow> nat) \<Rightarrow> nat \<Rightarrow> Deck \<Rightarrow> Deck" where
  "setDeckCount rnd n d = shuffle rnd (initialize (d\<lparr>deckCount := n\<rparr>))"

definition setPenetration :: "rat \<Rightarrow> Deck \<Rightarrow> Deck" where
  "setPenetration level d = d\<lparr>penetration := max (1 / 2) (min 1 level)\<rparr>"

text \<open>The constructor \<open>new Deck(deckCount)\<close>.\<close>

definition new_Deck :: "nat \<Rightarrow> Deck" where
  "new_Deck n =
     initialize \<lparr>deckCount = n, cards = [], dealtCards = [], penetration = 3 / 4,
                 runningCount = 0, countingSystem = ''hi-lo''\<rparr>"

section \<open>Hands (class Hand)\<close>

record Hand =
  hand_cards :: "Card list"
  bet :: rat
  isDoubled :: bool
  isSplit :: bool
  isStood :: bool
  isBusted :: bool
  isSurrendered :: bool
  insuranceBet :: rat

definition new_Hand :: Hand where
  "new_Hand = \<lparr>hand_cards = [], bet = 0, isDoubled = False, isSplit = False, isStood = False,
               isBusted = False, isSurrendered = False, insuranceBet = 0\<rparr>"

text \<open>The first loop of \<open>getValue\<close> and \<open>isSoft\<close>: the raw total and the number of aces.\<close>

fun sum_loop :: "Card list \<Rightarrow> int \<Rightarrow> nat \<Rightarrow> int \<times> nat" where
  "sum_loop [] v aces = (v, aces)"
| "sum_loop (c # cs) v aces = sum_loop cs (v + cvalue c) (if isAce c then aces + 1 else aces)"

text \<open>The second loop: \<open>while (value > 21 && aces > 0) { value -= 10; aces--; }\<close>.\<close>

function reduce_loop :: "int \<Rightarrow> nat \<Rightarrow> int" where
  "reduce_loop v aces = (if v > 21 \<and> aces > 0 then reduce_loop (v - 10) (aces - 1) else v)"
  by pat_completeness auto
termination
  by (relation "measure (\<lambda>(v, aces). aces)") auto

definition getValue :: "Hand \<Rightarrow> int" where
  "getValue h = (case sum_loop (hand_cards h) 0 0 of (v, aces) \<Rightarrow> reduce_loop v aces)"

definition isSoft :: "Hand \<Rightarrow> bool" where
  "isSoft h = (case sum_loop (hand_cards h) 0 0 of (v, aces) \<Rightarrow> aces > 0 \<and> v \<le> 21)"

definition isBlackjack :: "Hand \<Rightarrow> bool" where
  "isBlackjack h = (length (hand_cards h) = 2 \<and> getValue h = 21 \<and> \<not> isSplit h)"

definition Hand_canSplit :: "Hand \<Rightarrow> bool" where
  "Hand_canSplit h =
     (if length (hand_cards h) \<noteq> 2 then False
      else rank (hand_cards h ! 0) = rank (hand_cards h ! 1))"

definition Hand_canDouble :: "bool \<Rightarrow> Hand \<Rightarrow> bool" where
  "Hand_canDouble anyCards h =
     (if isDoubled h then False else if anyCards then True else length (hand_cards h) = 2)"

definition checkBust :: "Hand \<Rightarrow> Hand" where
  "checkBust h = (if getValue h > 21 then h\<lparr>isBusted := True\<rparr> else h)"

definition addCard :: "Hand \<Rightarrow> Card \<Rightarrow> Hand" where
  "addCard h crd = checkBust (h\<lparr>hand_cards := hand_cards h @ [crd]\<rparr>)"

definition clear :: "Hand \<Rightarrow> Hand" where
  "clear h = h\<lparr>hand_cards := [], bet := 0, isDoubled := False, isSplit := False,
               isStood := False, isBusted := False, isSurrendered := False,
               insuranceBet := 0\<rparr>"


section \<open>The round state machine (game.js)\<close>

datatype GameState = BETTING | DEALING | INSURANCE | PLAYER_TURN | DEALER_TURN | PAYOUT | GAME_OVER

datatype ResultType = WIN | LOSE | PUSH | BLACKJACK | SURRENDER

record Settings =
  settings_deckCount :: nat
  dealerHitsSoft17 :: bool
  blackjackPays :: rat
  doubleAfterSplit :: bool
  resplitAces :: bool
  surrenderAllowed :: bool
  insuranceAllowed :: bool
  countingEnabled :: bool
  settings_countingSystem :: string
  minBet :: rat
  maxBet :: rat
  autoStandOn21 :: bool
  numHands :: nat
  dealerHoleCard :: bool

record Stats =
  handsPlayed :: nat
  handsWon :: nat
  handsLost :: nat
  handsPushed :: nat
  blackjacks :: nat
  totalWagered :: rat
  netProfit :: rat

text \<open>
  The fields of \<open>BlackjackGame\<close>. The callbacks (\<open>onStateChange\<close>, \<open>onCardDealt\<close>, ...) and
  the persistence calls belong to the user interface and to local storage; they do not write
  the fields below and are left out.
\<close>

record BlackjackGame =
  deck :: Deck
  playerHands :: "Hand list"
  dealerHand :: Hand
  currentHandIndex :: nat
  state :: GameState
  balance :: rat
  currentBet :: rat
  settings :: Settings
  stats :: Stats

definition default_settings :: Settings where
  "default_settings =
     \<lparr>settings_deckCount = 6, dealerHitsSoft17 = True, blackjackPays = 3 / 2,
      doubleAfterSplit = True, resplitAces = False, surrenderAllowed = True,
      insuranceAllowed = True, countingEnabled = False, settings_countingSystem = ''hi-lo'',
      minBet = 10, maxBet = 999000000000, autoStandOn21 = True, numHands = 1,
      dealerHoleCard = True\<rparr>"

definition empty_stats :: Stats where
  "empty_stats = \<lparr>handsPlayed = 0, handsWon = 0, handsLost = 0, handsPushed = 0,
                   blackjacks = 0, totalWagered = 0, netProfit = 0\<rparr>"

text \<open>The constructor, with nothing in local storage: a six-deck shoe, shuffled.\<close>

definition new_BlackjackGame :: "(nat \<Rightarrow> nat) \<Rightarrow> BlackjackGame" where
  "new_BlackjackGame rnd =
     \<lparr>deck = shuffle rnd (new_Deck 6), playerHands = [new_Hand], dealerHand = new_Hand,
      currentHandIndex = 0, state = BETTING, balance = 10000, currentBet = 0,
      settings = default_settings, stats = empty_stats\<rparr>"

text \<open>
  A method that reads a property of \<open>undefined\<close> or \<open>null\<close> throws a \<open>TypeError\<close>: the
  getter \<open>currentHand\<close> with an index out of range, \<open>dealerHand.cards[1]\<close> of a shorter
  hand, the card of an empty shoe. The methods that can throw return an option, \<open>None\<close>
  being the exception.
\<close>

definition currentHand :: "BlackjackGame \<Rightarrow> Hand option" where
  "currentHand g =
     (if currentHandIndex g < length (playerHands g)
      then Some (playerHands g ! currentHandIndex g) else None)"

definition setCurrentHand :: "Hand \<Rightarrow> BlackjackGame \<Rightarrow> BlackjackGame" where
  "setCurrentHand h g = g\<lparr>playerHands := (playerHands g)[currentHandIndex g := h]\<rparr>"

definition placeBet :: "rat \<Rightarrow> BlackjackGame \<Rightarrow> (bool \<times> BlackjackGame) option" where
  "placeBet amount g =
     (if state g \<noteq> BETTING then Some (False, g)
      else if amount < minBet (settings g) \<or> amount > maxBet (settings g) then Some (False, g)
      else if amount > balance g then Some (False, g)
      else (case playerHands g of
              [] \<Rightarrow> None
            | h # hs \<Rightarrow>
                Some (True,
                  g\<lparr>currentBet := amount,
                    balance := balance g - amount,
                    playerHands := h\<lparr>bet := amount\<rparr> # hs,
                    stats := (stats g)\<lparr>totalWagered := totalWagered (stats g) + amount\<rparr>\<rparr>)))"

text \<open>\<open>dealCardToHand\<close> is called with the current player hand or with the dealer's hand.\<close>

datatype HandRef = CurrentHand | DealerHand

definition getHand :: "HandRef \<Rightarrow> BlackjackGame \<Rightarrow> Hand option" where
  "getHand ref g = (case ref of CurrentHand \<Rightarrow> currentHand g | DealerHand \<Rightarrow> Some (dealerHand g))"

definition putHand :: "HandRef \<Rightarrow> Hand \<Rightarrow> BlackjackGame \<Rightarrow> BlackjackGame" where
  "putHand ref h g = (case ref of CurrentHand \<Rightarrow> setCurrentHand h g | DealerHand \<Rightarrow> g\<lparr>dealerHand := h\<rparr>)"

text \<open>
  The discard pile keeps the card as \<open>Deck.deal\<close> pushed it. The source shares the object
  with the hand, so a later write to \<open>faceUp\<close> shows in the discard pile too; no code reads
  the flag of a card in either pile (\<open>dealCardToHand\<close>, the only caller of \<open>Deck.deal\<close>,
  overwrites it), so the hands hold the flags.
\<close>

definition dealCardToHand :: "HandRef \<Rightarrow> bool \<Rightarrow> BlackjackGame \<Rightarrow> BlackjackGame option" where
  "dealCardToHand ref fu g =
     (case getHand ref g of
        None \<Rightarrow> None
      | Some hand \<Rightarrow>
          (case Deck_deal (deck g) of
             (None, _) \<Rightarrow> None
           | (Some c, d1) \<Rightarrow>
               let crd = c\<lparr>faceUp := fu\<rparr>;
                   hand1 = addCard hand crd;
                   d2 = (if fu then updateCount (Some crd) d1 else d1)
               in Some (putHand ref hand1 (g\<lparr>deck := d2\<rparr>))))"

definition endRound :: "BlackjackGame \<Rightarrow> BlackjackGame" where
  "endRound g = g\<lparr>state := GAME_OVER\<rparr>"

text \<open>
  The three statements \<open>dealerHand.cards[1].faceUp = true; deck.updateCount(dealerHand.cards[1]);
  notifyCountUpdate()\<close>, which the source repeats in \<open>handleInsuranceDecision\<close>,
  \<open>handleBlackjack\<close> and twice in \<open>dealerTurn\<close>.
\<close>

definition revealHoleCard :: "BlackjackGame \<Rightarrow> BlackjackGame option" where
  "revealHoleCard g =
     (case hand_cards (dealerHand g) of
        c0 # c1 # rest \<Rightarrow>
          Some (g\<lparr>dealerHand := (dealerHand g)\<lparr>hand_cards := c0 # c1\<lparr>faceUp := True\<rparr> # rest\<rparr>,
                  deck := updateCount (Some (c1\<lparr>faceUp := True\<rparr>)) (deck g)\<rparr>)
      | _ \<Rightarrow> None)"

definition handleBlackjack :: "BlackjackGame \<Rightarrow> BlackjackGame option" where
  "handleBlackjack g =
     (case revealHoleCard g of
        None \<Rightarrow> None
      | Some g1 \<Rightarrow>
          (case currentHand g1 of
             None \<Rightarrow> None
           | Some ch \<Rightarrow>
               if isBlackjack (dealerHand g1)
               then Some (endRound (g1\<lparr>balance := balance g1 + bet ch,
                                       stats := (stats g1)\<lparr>handsPushed := handsPushed (stats g1) + 1\<rparr>\<rparr>))
               else
                 let winnings = bet ch * (1 + blackjackPays (settings g1))
                 in Some (endRound (g1\<lparr>balance := balance g1 + winnings,
                        stats := (stats g1)\<lparr>handsWon := handsWon (stats g1) + 1,
                                             blackjacks := blackjacks (stats g1) + 1,
                                             netProfit := netProfit (stats g1) + (winnings - bet ch)\<rparr>\<rparr>))))"

text \<open>
  \<open>resolveHands\<close>: the body of the loop over the player hands, on the balance, the
  statistics and \<open>totalWinnings\<close>.
\<close>

definition resolveHand :: "int \<Rightarrow> bool \<Rightarrow> rat \<times> Stats \<times> rat \<Rightarrow> Hand \<Rightarrow> rat \<times> Stats \<times> rat" where
  "resolveHand dealerValue dealerBusted acc hand =
     (case acc of (bal, st, totalWinnings) \<Rightarrow>
        let playerValue = getValue hand;
            (payout, st1) =
              (if isSurrendered hand then (bet hand / 2, st)
               else if isBusted hand
                 then (0, st\<lparr>handsLost := handsLost st + 1, netProfit := netProfit st - bet hand\<rparr>)
               else if dealerBusted
                 then (bet hand * 2, st\<lparr>handsWon := handsWon st + 1, netProfit := netProfit st + bet hand\<rparr>)
               else if playerValue > dealerValue
                 then (bet hand * 2, st\<lparr>handsWon := handsWon st + 1, netProfit := netProfit st + bet hand\<rparr>)
               else if playerValue < dealerValue
                 then (0, st\<lparr>handsLost := handsLost st + 1, netProfit := netProfit st - bet hand\<rparr>)
               else (bet hand, st\<lparr>handsPushed := handsPushed st + 1\<rparr>))
        in (bal + payout, st1, totalWinnings + (payout - bet hand)))"

definition resolveHands_loop :: "BlackjackGame \<Rightarrow> rat \<times> Stats \<times> rat" where
  "resolveHands_loop g =
     foldl (resolveHand (getValue (dealerHand g)) (isBusted (dealerHand g)))
       (balance g, stats g, 0) (playerHands g)"

definition resolveHands :: "BlackjackGame \<Rightarrow> BlackjackGame" where
  "resolveHands g =
     (case resolveHands_loop g of (bal, st, totalWinnings) \<Rightarrow>
        endRound (g\<lparr>state := PAYOUT, balance := bal,
                    stats := st\<lparr>handsPlayed := handsPlayed st + 1\<rparr>\<rparr>))"

text \<open>The arguments of the call \<open>notifyResult(overallResult, totalWinnings)\<close> in \<open>resolveHands\<close>.\<close>

definition resolveHands_result :: "BlackjackGame \<Rightarrow> ResultType \<times> rat" where
  "resolveHands_result g =
     (case resolveHands_loop g of (bal, st, totalWinnings) \<Rightarrow>
        (if totalWinnings > 0 then WIN else if totalWinnings < 0 then LOSE else PUSH,
         totalWinnings))"

definition shouldDealerHit :: "BlackjackGame \<Rightarrow> bool" where
  "shouldDealerHit g =
     (let v = getValue (dealerHand g)
      in if v < 17 then True
         else if v = 17 \<and> isSoft (dealerHand g) \<and> dealerHitsSoft17 (settings g) then True
         else False)"

text \<open>
  The loop \<open>while (this.shouldDealerHit()) { ...; await this.dealCardToHand(this.dealerHand, true); }\<close>
  of \<open>dealerTurn\<close>. Every draw takes a card from the shoe, and the draw from an empty shoe
  throws.
\<close>

function dealerDraw :: "BlackjackGame \<Rightarrow> BlackjackGame option" where
  "dealerDraw g =
     (if shouldDealerHit g
      then (case dealCardToHand DealerHand True g of
              None \<Rightarrow> None
            | Some g1 \<Rightarrow> dealerDraw g1)
      else Some g)"
  by pat_completeness auto
termination
  by (relation "measure (\<lambda>g. length (cards (deck g)))")
     (auto simp add: dealCardToHand_def getHand_def putHand_def Deck_deal_def updateCount_def
           Let_def
           split: option.splits if_splits prod.splits)

definition dealerTurn :: "BlackjackGame \<Rightarrow> BlackjackGame option" where
  "dealerTurn g =
     (if list_all (\<lambda>h. isBusted h \<or> isSurrendered h) (playerHands g)
      then (case revealHoleCard g of None \<Rightarrow> None | Some g1 \<Rightarrow> Some (resolveHands g1))
      else (case revealHoleCard (g\<lparr>state := DEALER_TURN\<rparr>) of
              None \<Rightarrow> None
            | Some g1 \<Rightarrow>
                (case dealerDraw g1 of None \<Rightarrow> None | Some g2 \<Rightarrow> Some (resolveHands g2))))"

definition handleHandComplete :: "BlackjackGame \<Rightarrow> BlackjackGame option" where
  "handleHandComplete g =
     (if currentHandIndex g + 1 < length (playerHands g)
      then
        (let g1 = g\<lparr>currentHandIndex := currentHandIndex g + 1\<rparr>
         in case currentHand g1 of
              None \<Rightarrow> None
            | Some ch \<Rightarrow>
                if length (hand_cards ch) = 1 then dealCardToHand CurrentHand True g1
                else Some g1)
      else dealerTurn g)"

text \<open>
  \<open>deal\<close>: \<open>rnd\<close> is the random source of the reshuffle it may start with.
\<close>

definition deal :: "(nat \<Rightarrow> nat) \<Rightarrow> BlackjackGame \<Rightarrow> BlackjackGame option" where
  "deal rnd g =
     (if currentBet g = 0 then Some g
      else
        let d0 = (if needsReshuffle (deck g) then reshuffle rnd (deck g) else deck g);
            g0 = g\<lparr>deck := d0, state := DEALING,
                   playerHands := [new_Hand\<lparr>bet := currentBet g\<rparr>],
                   dealerHand := clear (dealerHand g),
                   currentHandIndex := 0\<rparr>
        in Option.bind (dealCardToHand CurrentHand True g0) (\<lambda>g1.
           Option.bind (dealCardToHand DealerHand True g1) (\<lambda>g2.
           Option.bind (dealCardToHand CurrentHand True g2) (\<lambda>g3.
           Option.bind (dealCardToHand DealerHand (\<not> dealerHoleCard (settings g3)) g3) (\<lambda>g4.
             (case hand_cards (dealerHand g4) of
                [] \<Rightarrow> None
              | dealerUpCard # _ \<Rightarrow>
                  Option.bind (currentHand g4) (\<lambda>ch.
                    if isAce dealerUpCard \<and> insuranceAllowed (settings g4)
                      then Some (g4\<lparr>state := INSURANCE\<rparr>)
                    else if isBlackjack ch then handleBlackjack g4
                    else Some (g4\<lparr>state := PLAYER_TURN\<rparr>))))))))"

definition handleInsuranceDecision :: "bool \<Rightarrow> BlackjackGame \<Rightarrow> BlackjackGame option" where
  "handleInsuranceDecision takeInsurance g =
     (if state g \<noteq> INSURANCE then Some g
      else
        Option.bind (currentHand g) (\<lambda>ch0.
          let g1 = (if takeInsurance
                    then (let insuranceAmount = bet ch0 / 2
                          in if insuranceAmount \<le> balance g
                             then setCurrentHand (ch0\<lparr>insuranceBet := insuranceAmount\<rparr>)
                                    (g\<lparr>balance := balance g - insuranceAmount\<rparr>)
                             else g)
                    else g)
          in if isBlackjack (dealerHand g1)
             then
               Option.bind (revealHoleCard g1) (\<lambda>g2.
               Option.bind (currentHand g2) (\<lambda>ch.
                 let g3 = (if insuranceBet ch > 0
                           then g2\<lparr>balance := balance g2 + insuranceBet ch * 3\<rparr> else g2);
                     g4 = (if isBlackjack ch
                           then g3\<lparr>balance := balance g3 + bet ch,
                                   stats := (stats g3)\<lparr>handsPushed := handsPushed (stats g3) + 1\<rparr>\<rparr>
                           else g3\<lparr>stats := (stats g3)\<lparr>handsLost := handsLost (stats g3) + 1,
                                      netProfit := netProfit (stats g3) - bet ch\<rparr>\<rparr>)
                 in Some (endRound g4)))
             else
               Option.bind (currentHand g1) (\<lambda>ch.
                 if isBlackjack ch then handleBlackjack g1
                 else Some (g1\<lparr>state := PLAYER_TURN\<rparr>))))"

definition hit :: "BlackjackGame \<Rightarrow> BlackjackGame option" where
  "hit g =
     (if state g \<noteq> PLAYER_TURN then Some g
      else
        Option.bind (dealCardToHand CurrentHand True g) (\<lambda>g1.
        Option.bind (currentHand g1) (\<lambda>ch.
          if isBusted ch then handleHandComplete g1
          else if getValue ch = 21 \<and> autoStandOn21 (settings g1)
            then handleHandComplete (setCurrentHand (ch\<lparr>isStood := True\<rparr>) g1)
          else Some g1)))"

definition stand :: "BlackjackGame \<Rightarrow> BlackjackGame option" where
  "stand g =
     (if state g \<noteq> PLAYER_TURN then Some g
      else
        Option.bind (currentHand g) (\<lambda>ch.
          handleHandComplete (setCurrentHand (ch\<lparr>isStood := True\<rparr>) g)))"

definition double :: "BlackjackGame \<Rightarrow> BlackjackGame option" where
  "double g =
     (if state g \<noteq> PLAYER_TURN then Some g
      else
        Option.bind (currentHand g) (\<lambda>ch.
          if \<not> Hand_canDouble False ch then Some g
          else
            let additionalBet = bet ch
            in if additionalBet > balance g then Some g
               else
                 let g1 = setCurrentHand (ch\<lparr>bet := bet ch * 2, isDoubled := True\<rparr>)
                            (g\<lparr>balance := balance g - additionalBet,
                               stats := (stats g)\<lparr>totalWagered :=
                                          totalWagered (stats g) + additionalBet\<rparr>\<rparr>)
                 in Option.bind (dealCardToHand CurrentHand True g1) (\<lambda>g2.
                    Option.bind (currentHand g2) (\<lambda>ch2.
                      handleHandComplete (setCurrentHand (ch2\<lparr>isStood := True\<rparr>) g2)))))"

text \<open>
  \<open>split\<close>: the new hand takes the popped second card and is spliced in after the current
  hand. The guards are those of the source: the phase, \<open>Hand.canSplit\<close> and the balance.
\<close>

definition split :: "BlackjackGame \<Rightarrow> BlackjackGame option" where
  "split g =
     (if state g \<noteq> PLAYER_TURN then Some g
      else
        Option.bind (currentHand g) (\<lambda>ch.
          if \<not> Hand_canSplit ch then Some g
          else
            let additionalBet = bet ch
            in if additionalBet > balance g then Some g
               else
                 let newHand = addCard (new_Hand\<lparr>bet := additionalBet, isSplit := True\<rparr>)
                                 (last (hand_cards ch));
                     ch1 = ch\<lparr>hand_cards := butlast (hand_cards ch), isSplit := True\<rparr>;
                     hands1 = (playerHands g)[currentHandIndex g := ch1];
                     g1 = g\<lparr>balance := balance g - additionalBet,
                            stats := (stats g)\<lparr>totalWagered :=
                                       totalWagered (stats g) + additionalBet\<rparr>,
                            playerHands := take (currentHandIndex g + 1) hands1 @ [newHand]
                                             @ drop (currentHandIndex g + 1) hands1\<rparr>
                 in dealCardToHand CurrentHand True g1))"

definition surrender :: "BlackjackGame \<Rightarrow> BlackjackGame option" where
  "surrender g =
     (if state g \<noteq> PLAYER_TURN then Some g
      else
        Option.bind (currentHand g) (\<lambda>ch.
          if length (hand_cards ch) \<noteq> 2 then Some g
          else if \<not> surrenderAllowed (settings g) then Some g
          else
            let returnAmount = bet ch / 2
            in handleHandComplete
                 (setCurrentHand (ch\<lparr>isSurrendered := True\<rparr>)
                    (g\<lparr>balance := balance g + returnAmount\<rparr>))))"

definition newRound :: "BlackjackGame \<Rightarrow> BlackjackGame" where
  "newRound g = g\<lparr>playerHands := [new_Hand], dealerHand := clear (dealerHand g),
                  currentHandIndex := 0, currentBet := 0, state := BETTING\<rparr>"

definition game_reshuffle :: "(nat \<Rightarrow> nat) \<Rightarrow> BlackjackGame \<Rightarrow> BlackjackGame" where
  "game_reshuffle rnd g = g\<lparr>deck := reshuffle rnd (deck g)\<rparr>"

definition addChips :: "rat \<Rightarrow> BlackjackGame \<Rightarrow> BlackjackGame" where
  "addChips amount g = g\<lparr>balance := balance g + amount\<rparr>"

definition game_canSplit :: "BlackjackGame \<Rightarrow> bool option" where
  "game_canSplit g =
     (if state g \<noteq> PLAYER_TURN then Some False
      else
        Option.bind (currentHand g) (\<lambda>ch.
          if \<not> Hand_canSplit ch then Some False
          else if bet ch > balance g then Some False
          else if length (playerHands g) \<ge> 4 then Some False
          else Some True))"

section \<open>Count deviations (game.js)\<close>

datatype action = A_HIT | A_STAND | A_DOUBLE | A_SPLIT | A_SURRENDER | A_TAKE_INSURANCE

text \<open>
  The keys of \<open>DEVIATION_INDICES\<close> are the strings \<open>'insurance'\<close>,
  \<open>`${playerValue}_${dealerValue}`\<close> and \<open>`TT_${dealerValue}`\<close>; the two numbers of a key
  are integers, which their decimal text determines.
\<close>

datatype dev_key = K_insurance | K_total int int | K_TT int

record Deviation =
  threshold :: int
  dev_action :: action
  belowAction :: "action option"
  normal :: "action option"

definition DEVIATION_INDICES :: "dev_key \<Rightarrow> Deviation option" where
  "DEVIATION_INDICES = map_of
     [(K_insurance, \<lparr>threshold = 3, dev_action = A_TAKE_INSURANCE, belowAction = None, normal = None\<rparr>),
      (K_total 16 10, \<lparr>threshold = 0, dev_action = A_STAND, belowAction = None, normal = Some A_HIT\<rparr>),
      (K_total 15 10, \<lparr>threshold = 4, dev_action = A_STAND, belowAction = None, normal = Some A_HIT\<rparr>),
      (K_total 10 10, \<lparr>threshold = 4, dev_action = A_DOUBLE, belowAction = None, normal = Some A_HIT\<rparr>),
      (K_total 12 3, \<lparr>threshold = 2, dev_action = A_STAND, belowAction = None, normal = Some A_HIT\<rparr>),
      (K_total 12 2, \<lparr>threshold = 3, dev_action = A_STAND, belowAction = None, normal = Some A_HIT\<rparr>),
      (K_total 11 11, \<lparr>threshold = 1, dev_action = A_DOUBLE, belowAction = None, normal = Some A_HIT\<rparr>),
      (K_total 9 2, \<lparr>threshold = 1, dev_action = A_DOUBLE, belowAction = None, normal = Some A_HIT\<rparr>),
      (K_total 10 11, \<lparr>threshold = 4, dev_action = A_DOUBLE, belowAction = None, normal = Some A_HIT\<rparr>),
      (K_total 9 7, \<lparr>threshold = 3, dev_action = A_DOUBLE, belowAction = None, normal = Some A_HIT\<rparr>),
      (K_total 16 9, \<lparr>threshold = 5, dev_action = A_STAND, belowAction = None, normal = Some A_HIT\<rparr>),
      (K_total 13 2, \<lparr>threshold = -1, dev_action = A_STAND, belowAction = None, normal = Some A_STAND\<rparr>),
      (K_total 12 4, \<lparr>threshold = 0, dev_action = A_STAND, belowAction = Some A_HIT, normal = Some A_STAND\<rparr>),
      (K_total 12 5, \<lparr>threshold = -2, dev_action = A_STAND, belowAction = Some A_HIT, normal = Some A_STAND\<rparr>),
      (K_total 12 6, \<lparr>threshold = -1, dev_action = A_STAND, belowAction = Some A_HIT, normal = Some A_STAND\<rparr>),
      (K_total 13 3, \<lparr>threshold = -2, dev_action = A_STAND, belowAction = Some A_HIT, normal = Some A_STAND\<rparr>),
      (K_TT 5, \<lparr>threshold = 5, dev_action = A_SPLIT, belowAction = None, normal = Some A_STAND\<rparr>),
      (K_TT 6, \<lparr>threshold = 4, dev_action = A_SPLIT, belowAction = None, normal = Some A_STAND\<rparr>)]"

text \<open>\<open>isPair && playerHand.cards[0].value === 10\<close>: a pair has two cards.\<close>

definition isTenPair :: "Hand \<Rightarrow> bool" where
  "isTenPair h = (Hand_canSplit h \<and> (case hand_cards h of [] \<Rightarrow> False | c # _ \<Rightarrow> cvalue c = 10))"


text \<open>The text of an integer in a template literal, and the sign the source puts before it.\<close>

fun show_nat :: "nat \<Rightarrow> string" where
  "show_nat n =
     (if n < 10 then [''0123456789'' ! n]
      else show_nat (n div 10) @ [''0123456789'' ! (n mod 10)])"

definition show_int :: "int \<Rightarrow> string" where
  "show_int i = (if i < 0 then ''-'' @ show_nat (nat (- i)) else show_nat (nat i))"

definition signed_text :: "int \<Rightarrow> string" where
  "signed_text i = (if i \<ge> 0 then ''+'' @ show_int i else show_int i)"

definition reason_text :: "int \<Rightarrow> string \<Rightarrow> int \<Rightarrow> string" where
  "reason_text trueCount cmp t = ''TC '' @ signed_text trueCount @ '' '' @ cmp @ '' '' @ signed_text t"

text \<open>The object \<open>getDeviationInfo\<close> returns; an absent property is \<open>None\<close>.\<close>

record DeviationInfo =
  isDeviation :: bool
  info_threshold :: "int option"
  info_action :: "action option"
  info_reason :: "string option"

definition no_deviation :: DeviationInfo where
  "no_deviation = \<lparr>isDeviation = False, info_threshold = None, info_action = None, info_reason = None\<rparr>"

definition deviation_info :: "int \<Rightarrow> action \<Rightarrow> string \<Rightarrow> DeviationInfo" where
  "deviation_info t a r = \<lparr>isDeviation = True, info_threshold = Some t, info_action = Some a, info_reason = Some r\<rparr>"

definition getDeviationInfo :: "Hand \<Rightarrow> int \<Rightarrow> int \<Rightarrow> DeviationInfo" where
  "getDeviationInfo playerHand dealerValue trueCount =
     (let playerValue = getValue playerHand;
          tt = (if isTenPair playerHand
                then (case DEVIATION_INDICES (K_TT dealerValue) of
                        None \<Rightarrow> None
                      | Some dev \<Rightarrow>
                          if trueCount \<ge> threshold dev
                          then Some (deviation_info (threshold dev) (dev_action dev)
                                       (reason_text trueCount ''>='' (threshold dev)))
                          else None)
                else None)
      in case tt of
           Some info \<Rightarrow> info
         | None \<Rightarrow>
             (case DEVIATION_INDICES (K_total playerValue dealerValue) of
                None \<Rightarrow> no_deviation
              | Some dev \<Rightarrow>
                  if belowAction dev \<noteq> None \<and> trueCount < threshold dev
                  then deviation_info (threshold dev) (the (belowAction dev))
                         (reason_text trueCount ''<'' (threshold dev))
                  else if trueCount \<ge> threshold dev
                  then deviation_info (threshold dev) (dev_action dev)
                         (reason_text trueCount ''>='' (threshold dev))
                  else no_deviation))"

text \<open>
  The method \<open>BlackjackGame.getDeviationInfo\<close>, the caller of the function: it passes the
  current hand, the dealer's up-card value and the true count.
\<close>

definition game_getDeviationInfo :: "BlackjackGame \<Rightarrow> DeviationInfo option" where
  "game_getDeviationInfo g =
     (if state g \<noteq> PLAYER_TURN then Some no_deviation
      else if \<not> countingEnabled (settings g) then Some no_deviation
      else
        (case hand_cards (dealerHand g) of
           [] \<Rightarrow> None
         | dealerUpCard # _ \<Rightarrow>
             Option.bind (currentHand g) (\<lambda>ch.
               Some (getDeviationInfo ch
                       (if cvalue dealerUpCard = 11 then 11 else cvalue dealerUpCard)
                       (getTrueCount (deck g))))))"

section \<open>Notions of the specification\<close>

text \<open>
  The specification speaks of the sum of the cards' blackjack values, of the aces of a hand
  and of its hard total (every ace counted as 1). These follow its words, not the loops of
  \<open>getValue\<close>.
\<close>

definition spec_rawTotal :: "Hand \<Rightarrow> int" where
  "spec_rawTotal h = sum_list (map cvalue (hand_cards h))"

definition spec_aceCount :: "Hand \<Rightarrow> nat" where
  "spec_aceCount h = length (filter isAce (hand_cards h))"

definition spec_hardTotal :: "Hand \<Rightarrow> int" where
  "spec_hardTotal h = spec_rawTotal h - 10 * int (spec_aceCount h)"

text \<open>A hand holding cards of the given ranks, and the hand that \<open>addCard\<close> builds from cards.\<close>

definition hand_of :: "rank list \<Rightarrow> Hand" where
  "hand_of rs = new_Hand\<lparr>hand_cards := map (createCard Spades) rs\<rparr>"

definition built :: "Card list \<Rightarrow> Hand" where
  "built cs = foldl addCard new_Hand cs"

text \<open>
  The weight of the face-up cards on the table under the shoe's counting system: what the
  running count gains in a round when every exposed card is counted once.
\<close>

definition card_weight :: "Deck \<Rightarrow> Card \<Rightarrow> int" where
  "card_weight d c =
     (if faceUp c
      then (case COUNTING_SYSTEMS (countingSystem d) of None \<Rightarrow> 0 | Some system \<Rightarrow> system (rank c))
      else 0)"

definition table_weight :: "BlackjackGame \<Rightarrow> int" where
  "table_weight g =
     sum_list (map (card_weight (deck g))
       (concat (map hand_cards (playerHands g)) @ hand_cards (dealerHand g)))"

text \<open>What the running count holds beyond the weight of the cards on the table.\<close>

definition count_offset :: "BlackjackGame \<Rightarrow> int" where
  "count_offset g = runningCount (deck g) - table_weight g"

text \<open>The dealer holds two cards and the second lies face-down.\<close>

definition hole_hidden :: "BlackjackGame \<Rightarrow> bool" where
  "hole_hidden g = (case hand_cards (dealerHand g) of [c0, c1] \<Rightarrow> \<not> faceUp c1 | _ \<Rightarrow> False)"

section \<open>Settings (game.js)\<close>

text \<open>
  \<open>updateSettings(newSettings)\<close> takes an object with some of the settings. It is a list of
  its properties here; the spread \<open>{ ...this.settings, ...newSettings }\<close> writes them over
  the current settings in order.
\<close>

datatype setting =
    S_deckCount nat
  | S_dealerHitsSoft17 bool
  | S_blackjackPays rat
  | S_doubleAfterSplit bool
  | S_resplitAces bool
  | S_surrenderAllowed bool
  | S_insuranceAllowed bool
  | S_countingEnabled bool
  | S_countingSystem string
  | S_minBet rat
  | S_maxBet rat
  | S_autoStandOn21 bool
  | S_numHands nat
  | S_dealerHoleCard bool

fun apply_setting :: "setting \<Rightarrow> Settings \<Rightarrow> Settings" where
  "apply_setting (S_deckCount n) s = s\<lparr>settings_deckCount := n\<rparr>"
| "apply_setting (S_dealerHitsSoft17 b) s = s\<lparr>dealerHitsSoft17 := b\<rparr>"
| "apply_setting (S_blackjackPays x) s = s\<lparr>blackjackPays := x\<rparr>"
| "apply_setting (S_doubleAfterSplit b) s = s\<lparr>doubleAfterSplit := b\<rparr>"
| "apply_setting (S_resplitAces b) s = s\<lparr>resplitAces := b\<rparr>"
| "apply_setting (S_surrenderAllowed b) s = s\<lparr>surrenderAllowed := b\<rparr>"
| "apply_setting (S_insuranceAllowed b) s = s\<lparr>insuranceAllowed := b\<rparr>"
| "apply_setting (S_countingEnabled b) s = s\<lparr>countingEnabled := b\<rparr>"
| "apply_setting (S_countingSystem name) s = s\<lparr>settings_countingSystem := name\<rparr>"
| "apply_setting (S_minBet x) s = s\<lparr>minBet := x\<rparr>"
| "apply_setting (S_maxBet x) s = s\<lparr>maxBet := x\<rparr>"
| "apply_setting (S_autoStandOn21 b) s = s\<lparr>autoStandOn21 := b\<rparr>"
| "apply_setting (S_numHands n) s = s\<lparr>numHands := n\<rparr>"
| "apply_setting (S_dealerHoleCard b) s = s\<lparr>dealerHoleCard := b\<rparr>"

text \<open>\<open>newSettings.deckCount\<close> and \<open>newSettings.countingSystem\<close>, \<open>None\<close> for \<open>undefined\<close>.\<close>

fun newSettings_deckCount :: "setting list \<Rightarrow> nat option" where
  "newSettings_deckCount [] = None"
| "newSettings_deckCount (x # xs) =
     (case newSettings_deckCount xs of
        Some n \<Rightarrow> Some n
      | None \<Rightarrow> (case x of S_deckCount n \<Rightarrow> Some n | _ \<Rightarrow> None))"

fun newSettings_countingSystem :: "setting list \<Rightarrow> string option" where
  "newSettings_countingSystem [] = None"
| "newSettings_countingSystem (x # xs) =
     (case newSettings_countingSystem xs of
        Some name \<Rightarrow> Some name
      | None \<Rightarrow> (case x of S_countingSystem name \<Rightarrow> Some name | _ \<Rightarrow> None))"

definition updateSettings :: "(nat \<Rightarrow> nat) \<Rightarrow> setting list \<Rightarrow> BlackjackGame \<Rightarrow> BlackjackGame" where
  "updateSettings rnd newSettings g =
     (let d1 = (case newSettings_deckCount newSettings of
                  None \<Rightarrow> deck g
                | Some n \<Rightarrow> setDeckCount rnd n (deck g));
          d2 = (case newSettings_countingSystem newSettings of
                  None \<Rightarrow> d1
                | Some name \<Rightarrow> setCountingSystem name d1)
      in g\<lparr>settings := fold apply_setting newSettings (settings g), deck := d2\<rparr>)"

section \<open>Rounds played from a new game\<close>

text \<open>
  A random source given by the draws that differ from the loop index: \<open>rnd_of swaps i\<close> is
  \<open>j\<close> for a pair \<open>(i, j)\<close> of \<open>swaps\<close> and \<open>i\<close> otherwise, so that iteration \<open>i\<close> of the
  shuffle exchanges the cards at \<open>i\<close> and \<open>j\<close>, or leaves the card at \<open>i\<close> in place.
\<close>

definition rnd_of :: "(nat \<times> nat) list \<Rightarrow> nat \<Rightarrow> nat" where
  "rnd_of swaps i = (case map_of swaps i of Some j \<Rightarrow> j | None \<Rightarrow> i)"

text \<open>The shoe stays in the order of \<open>initialize\<close>: king, queen, jack, ten of clubs on top.\<close>

definition identity_rnd :: "nat \<Rightarrow> nat" where
  "identity_rnd = rnd_of []"

text \<open>Eights at the positions 311, 309, 307, 306 and 305 of the six-deck shoe.\<close>

definition split_rnd :: "nat \<Rightarrow> nat" where
  "split_rnd = rnd_of [(311, 7), (309, 20), (307, 33), (306, 46), (305, 59)]"

text \<open>The ace of spades as the dealer's first card and the five of spades as the second.\<close>

definition insurance_rnd :: "nat \<Rightarrow> nat" where
  "insurance_rnd = rnd_of [(310, 0), (308, 4)]"

text \<open>The ace of spades as the dealer's first card, before the ten of clubs.\<close>

definition dealer_blackjack_rnd :: "nat \<Rightarrow> nat" where
  "dealer_blackjack_rnd = rnd_of [(310, 0)]"

text \<open>The next call on the game a call returned, if it returned.\<close>

definition play :: "BlackjackGame option \<Rightarrow> (BlackjackGame \<Rightarrow> BlackjackGame option)
    \<Rightarrow> BlackjackGame option" where
  "play g f = Option.bind g f"

text \<open>\<open>placeBet(amount)\<close> and \<open>deal()\<close> on a game, as \<open>handleDeal\<close> of the user interface calls them.\<close>

definition bet_and_deal :: "(nat \<Rightarrow> nat) \<Rightarrow> rat \<Rightarrow> BlackjackGame \<Rightarrow> BlackjackGame option" where
  "bet_and_deal rnd amount g = Option.bind (placeBet amount g) (deal rnd \<circ> snd)"

text \<open>A new game, a bet of 100, the deal and three splits of eights: four hands.\<close>

definition split_round :: "BlackjackGame option" where
  "split_round =
     play (play (play (bet_and_deal split_rnd 100 (new_BlackjackGame split_rnd)) split) split) split"

text \<open>A new game, a bet of 100 and the deal of king, jack against queen and a hidden ten.\<close>

definition plain_round :: "BlackjackGame option" where
  "plain_round = bet_and_deal identity_rnd 100 (new_BlackjackGame identity_rnd)"

text \<open>The same with the setting \<open>dealerHoleCard\<close> off: the dealer's second card is dealt face-up.\<close>

definition open_round :: "BlackjackGame option" where
  "open_round =
     bet_and_deal identity_rnd 100
       (updateSettings identity_rnd [S_dealerHoleCard False] (new_BlackjackGame identity_rnd))"

text \<open>A new game, a bet of 100 and the deal of king, jack against an ace and a hidden five.\<close>

definition insurance_round :: "BlackjackGame option" where
  "insurance_round = bet_and_deal insurance_rnd 100 (new_BlackjackGame insurance_rnd)"

text \<open>The deal of king, jack against an ace and a hidden ten.\<close>

definition dealer_blackjack_round :: "BlackjackGame option" where
  "dealer_blackjack_round =
     bet_and_deal dealer_blackjack_rnd 100 (new_BlackjackGame dealer_blackjack_rnd)"

text \<open>The dealer's second card.\<close>

definition holeCard :: "BlackjackGame \<Rightarrow> Card" where
  "holeCard g = hand_cards (dealerHand g) ! 1"

section \<open>Hand values\<close>

declare reduce_loop.simps [simp del]

lemma sum_loop_eq:
  "sum_loop cs v a = (v + sum_list (map cvalue cs), a + length (filter isAce cs))"
  by (induction cs arbitrary: v a) auto

lemma reduce_loop_spec:
  "\<exists>k\<le>a. reduce_loop v a = v - 10 * int k \<and> (\<forall>j<k. v - 10 * int j > 21)
        \<and> (k < a \<longrightarrow> v - 10 * int k \<le> 21)"
proof (induction v a rule: reduce_loop.induct)
  case (1 v aces)
  show ?case
  proof (cases "v > 21 \<and> aces > 0")
    case False
    then have "reduce_loop v aces = v" by (simp add: reduce_loop.simps)
    with False show ?thesis by (intro exI[of _ 0]) auto
  next
    case True
    then obtain k where k: "k \<le> aces - 1" "reduce_loop (v - 10) (aces - 1) = v - 10 - 10 * int k"
      "\<forall>j<k. v - 10 - 10 * int j > 21" "k < aces - 1 \<longrightarrow> v - 10 - 10 * int k \<le> 21"
      using 1 by blast
    have r: "reduce_loop v aces = reduce_loop (v - 10) (aces - 1)"
      using True by (subst reduce_loop.simps) simp
    have "\<forall>j<Suc k. v - 10 * int j > 21"
    proof (intro allI impI)
      fix j assume "j < Suc k"
      show "v - 10 * int j > 21"
      proof (cases j)
        case 0 then show ?thesis using True by simp
      next
        case (Suc j')
        then have "j' < k" using \<open>j < Suc k\<close> by simp
        then show ?thesis using k(3) Suc by auto
      qed
    qed
    with k r True show ?thesis by (intro exI[of _ "Suc k"]) auto
  qed
qed

lemma reduce_loop_gt21: "reduce_loop v a > 21 \<longleftrightarrow> v - 10 * int a > 21"
proof (induction v a rule: reduce_loop.induct)
  case (1 v aces)
  show ?case
  proof (cases "v > 21 \<and> aces > 0")
    case False
    then show ?thesis by (subst reduce_loop.simps) auto
  next
    case True
    then have "reduce_loop v aces = reduce_loop (v - 10) (aces - 1)"
      by (subst reduce_loop.simps) simp
    moreover have "int (aces - 1) = int aces - 1" using True by simp
    ultimately show ?thesis using 1 True by simp
  qed
qed

lemma getValue_eq: "getValue h = reduce_loop (spec_rawTotal h) (spec_aceCount h)"
  by (simp add: getValue_def sum_loop_eq spec_rawTotal_def spec_aceCount_def)

lemmas hand_eval = getValue_def new_Hand_def createCard_def cvalue_def isAce_def
  addCard_def checkBust_def reduce_loop.simps hand_of_def built_def

lemma getValue_A_A_9: "getValue (hand_of [RA, RA, R9]) = 21"
  by (simp add: hand_eval)

lemma getValue_A_A_A_9: "getValue (hand_of [RA, RA, RA, R9]) = 12"
  by (simp add: hand_eval)

text \<open>
  Claim C6. \<open>getValue\<close> is the sum of the cards' blackjack values less 10 for each of \<open>k\<close>
  aces, where \<open>k\<close> is the number of reductions the words of the specification allow: every
  earlier total exceeded 21, and the reduction stopped either because the total no longer
  exceeds 21 or because no ace is left. So a value above 21 has every ace reduced; ace, ace,
  nine is 21 and ace, ace, ace, nine is 12.
\<close>

theorem getValue_ace_reduction:
  "(\<exists>k\<le>spec_aceCount h. getValue h = spec_rawTotal h - 10 * int k
        \<and> (\<forall>j<k. spec_rawTotal h - 10 * int j > 21)
        \<and> (k < spec_aceCount h \<longrightarrow> spec_rawTotal h - 10 * int k \<le> 21))
   \<and> (getValue h > 21 \<longrightarrow> getValue h = spec_rawTotal h - 10 * int (spec_aceCount h))
   \<and> getValue (hand_of [RA, RA, R9]) = 21
   \<and> getValue (hand_of [RA, RA, RA, R9]) = 12"
proof -
  obtain k where k: "k \<le> spec_aceCount h" "getValue h = spec_rawTotal h - 10 * int k"
     "\<forall>j<k. spec_rawTotal h - 10 * int j > 21"
     "k < spec_aceCount h \<longrightarrow> spec_rawTotal h - 10 * int k \<le> 21"
    using reduce_loop_spec[of "spec_aceCount h" "spec_rawTotal h"] by (auto simp: getValue_eq)
  have "getValue h > 21 \<longrightarrow> getValue h = spec_rawTotal h - 10 * int (spec_aceCount h)"
    using k by (cases "k < spec_aceCount h") auto
  with k getValue_A_A_9 getValue_A_A_A_9 show ?thesis by blast
qed

text \<open>
  The characterisation fixes the value: for ace, five, king the raw total is 26 with one ace,
  no reduction leaves 26 > 21 with an ace to spare, so exactly one reduction happens.
\<close>

theorem getValue_ace_reduction_witness:
  "getValue (hand_of [RA, R5, RK]) = 16"
  using getValue_ace_reduction [of "hand_of [RA, R5, RK]"]
  by (auto simp add: spec_rawTotal_def spec_aceCount_def hand_of_def new_Hand_def
        createCard_def cvalue_def isAce_def)

section \<open>Busting\<close>

lemma getValue_gt21_iff: "getValue h > 21 \<longleftrightarrow> spec_hardTotal h > 21"
  by (simp add: getValue_eq reduce_loop_gt21 spec_hardTotal_def)

lemma getValue_isBusted_upd [simp]: "getValue (h\<lparr>isBusted := b\<rparr>) = getValue h"
  by (simp add: getValue_def)

lemma hand_cards_addCard [simp]: "hand_cards (addCard h c) = hand_cards h @ [c]"
  by (simp add: addCard_def checkBust_def)

lemma isBusted_addCard: "isBusted (addCard h c) = (isBusted h \<or> getValue (addCard h c) > 21)"
  by (auto simp add: addCard_def checkBust_def)

lemma cvalue_hard: "cvalue c - (if isAce c then 10 else 0) \<ge> 1"
  by (cases "rank c") (simp_all add: cvalue_def isAce_def)

lemma hardTotal_addCard: "spec_hardTotal (addCard h c) \<ge> spec_hardTotal h + 1"
  using cvalue_hard [of c]
  by (cases "isAce c") (simp_all add: spec_hardTotal_def spec_rawTotal_def spec_aceCount_def)

lemma busted_stays: "getValue h > 21 \<Longrightarrow> getValue (addCard h c) > 21"
  using hardTotal_addCard [of h c] by (simp add: getValue_gt21_iff)

lemma built_snoc: "built (cs @ [c]) = addCard (built cs) c"
  by (simp add: built_def)

lemma built_isBusted: "isBusted (built cs) = (getValue (built cs) > 21)"
proof (induction cs rule: rev_induct)
  case Nil
  show ?case by (simp add: built_def new_Hand_def getValue_def reduce_loop.simps)
next
  case (snoc c cs)
  show ?case using snoc busted_stays [of "built cs" c]
    by (auto simp add: isBusted_addCard built_snoc)
qed

text \<open>
  Claim C10, as the code has it. For the hand that \<open>addCard\<close> builds from any cards,
  \<open>isBusted\<close> is true exactly when \<open>getValue\<close> exceeds 21, and one more card leaves a
  busted hand busted with a value above 21. What grows by at least 1 with every card is the
  hard total (each ace counted as 1); \<open>getValue\<close> itself may stand still or drop.
\<close>

theorem addCard_bust_invariant:
  "isBusted (built cs) = (getValue (built cs) > 21)
   \<and> isBusted (addCard (built cs) c) = (getValue (addCard (built cs) c) > 21)
   \<and> spec_hardTotal (addCard (built cs) c) \<ge> spec_hardTotal (built cs) + 1
   \<and> (isBusted (built cs) \<longrightarrow>
        isBusted (addCard (built cs) c) \<and> getValue (addCard (built cs) c) > 21)"
  using built_isBusted [of cs] built_isBusted [of "cs @ [c]"]
    hardTotal_addCard [of "built cs" c] busted_stays [of "built cs" c]
  by (auto simp add: isBusted_addCard built_snoc)

text \<open>
  King, eight and five make 23: the hand is busted, and it stays busted when a two follows.
\<close>

theorem addCard_bust_invariant_witness:
  "isBusted (built [createCard Spades RK, createCard Spades R8, createCard Hearts R5])
   \<and> isBusted (addCard (built [createCard Spades RK, createCard Spades R8, createCard Hearts R5])
        (createCard Clubs R2))"
  using addCard_bust_invariant
    [of "[createCard Spades RK, createCard Spades R8, createCard Hearts R5]" "createCard Clubs R2"]
  by (simp add: hand_eval)

text \<open>
  Claim C10 as stated says that each added card increases \<open>getValue\<close> by at least 1. Ace and
  eight are worth 19; a five makes the hand 14.
\<close>

theorem addCard_value_increase_counterexample:
  "\<not> (getValue (addCard (built [createCard Spades RA, createCard Spades R8]) (createCard Hearts R5))
       \<ge> getValue (built [createCard Spades RA, createCard Spades R8]) + 1)"
  by (simp add: hand_eval)

section \<open>The true count\<close>


lemma length_one_deck: "length one_deck = 52"
  by (simp add: one_deck_def SUITS_def RANKS_def)

lemma length_full_shoe [simp]: "length (full_shoe n) = n * 52"
  by (induction n) (simp_all add: length_one_deck)

lemma length_initialize: "length (cards (initialize d)) = deckCount d * 52"
  by (simp add: initialize_def)

lemma deckCount_initialize [simp]: "deckCount (initialize d) = deckCount d"
  by (simp add: initialize_def)

lemma runningCount_initialize [simp]: "runningCount (initialize d) = 0"
  by (simp add: initialize_def)



section \<open>Shuffling\<close>

lemma shuffle_loop_length [simp]: "length (shuffle_loop rnd k a) = length a"
  by (induction k arbitrary: a) (simp_all add: Let_def)

lemma shuffle_loop_mset: "k < length a \<Longrightarrow> mset (shuffle_loop rnd k a) = mset a"
proof (induction k arbitrary: a)
  case 0
  show ?case by simp
next
  case (Suc k)
  let ?j = "rnd (Suc k) mod (Suc k + 1)"
  have "?j < Suc k + 1" by simp
  then have j: "?j < length a" using Suc.prems by linarith
  have "mset (a[Suc k := a ! ?j, ?j := a ! Suc k]) = mset a"
    using mset_swap [OF j Suc.prems] .
  moreover have "k < length (a[Suc k := a ! ?j, ?j := a ! Suc k])" using Suc.prems by simp
  ultimately show ?case using Suc.IH by (simp add: Let_def)
qed

lemma shuffle_mset: "mset (cards (shuffle rnd d)) = mset (cards d)"
proof (cases "cards d = []")
  case True then show ?thesis by (simp add: shuffle_def)
next
  case False
  then have "length (cards d) - 1 < length (cards d)" by (cases "cards d") simp_all
  then show ?thesis by (simp add: shuffle_def shuffle_loop_mset)
qed

text \<open>
  Claim C4, as the code has it. For every shoe and every random source, \<open>shuffle\<close> leaves in
  the draw pile a permutation of the cards the draw pile held, and empties the discard pile
  and the running count. The draw pile is the whole shoe of \<open>deckCount * 52\<close> cards when
  \<open>shuffle\<close> follows \<open>initialize\<close>, and \<open>reshuffle\<close> first puts the discard pile back, so
  that it permutes draw pile and discard pile together.
\<close>

theorem shuffle_permutes_draw_pile:
  "mset (cards (shuffle rnd d)) = mset (cards d)
   \<and> dealtCards (shuffle rnd d) = []
   \<and> runningCount (shuffle rnd d) = 0
   \<and> mset (cards (shuffle rnd (initialize d))) = mset (full_shoe (deckCount d))
   \<and> length (cards (shuffle rnd (initialize d))) = deckCount d * 52
   \<and> mset (cards (reshuffle rnd d)) = mset (cards d) + mset (dealtCards d)
   \<and> dealtCards (reshuffle rnd d) = []
   \<and> runningCount (reshuffle rnd d) = 0"
proof -
  have "length (cards (shuffle rnd (initialize d))) = deckCount d * 52"
    using length_initialize [of d] by (simp add: shuffle_def)
  moreover have "mset (cards (shuffle rnd (initialize d)))
      = mset (full_shoe (deckCount d))"
    by (simp add: shuffle_mset) (simp add: initialize_def)
  moreover have "mset (cards (reshuffle rnd d)) = mset (cards d) + mset (dealtCards d)"
    by (simp add: reshuffle_def shuffle_mset)
  moreover have "dealtCards (reshuffle rnd d) = [] \<and> runningCount (reshuffle rnd d) = 0"
    by (simp add: reshuffle_def shuffle_def)
  ultimately show ?thesis by (simp add: shuffle_mset) (simp add: shuffle_def)
qed

text \<open>
  Claim C4 as stated covers a shoe with a card in the discard pile. In a one-deck shoe that
  has dealt one card, \<open>shuffle\<close> permutes the 51 cards left and drops the discard pile: the
  draw pile is not the 52 cards of the shoe.
\<close>

theorem shuffle_full_shoe_counterexample:
  "mset (cards (shuffle identity_rnd (snd (Deck_deal (new_Deck 1)))))
     \<noteq> mset (full_shoe (deckCount (snd (Deck_deal (new_Deck 1)))))"
proof
  assume "mset (cards (shuffle identity_rnd (snd (Deck_deal (new_Deck 1)))))
     = mset (full_shoe (deckCount (snd (Deck_deal (new_Deck 1)))))"
  then have "length (cards (shuffle identity_rnd (snd (Deck_deal (new_Deck 1)))))
     = length (full_shoe (deckCount (snd (Deck_deal (new_Deck 1)))))"
    by (rule mset_eq_length)
  then show False
    by (simp add: shuffle_def Deck_deal_def new_Deck_def length_initialize length_one_deck)
qed

section \<open>The shoe of a new game\<close>

lemma shuffle_loop_id:
  "(\<And>i. 0 < i \<Longrightarrow> i \<le> k \<Longrightarrow> rnd i = i) \<Longrightarrow> shuffle_loop rnd k a = a"
  by (induction k arbitrary: a) (simp_all add: Let_def)

lemma shuffle_loop_step:
  "0 < k \<Longrightarrow> shuffle_loop rnd k a =
     shuffle_loop rnd (k - 1) (a[k := a ! (rnd k mod (k + 1)), rnd k mod (k + 1) := a ! k])"
  by (cases k) (simp_all add: Let_def)

lemma shuffle_loop_skip:
  "0 < k \<Longrightarrow> rnd k = k \<Longrightarrow> shuffle_loop rnd k a = shuffle_loop rnd (k - 1) a"
  by (cases k) (simp_all add: Let_def)

lemma full_shoe_nth: "k < n * 52 \<Longrightarrow> full_shoe n ! k = one_deck ! (k mod 52)"
proof (induction n)
  case 0
  then show ?case by simp
next
  case (Suc n)
  show ?case
  proof (cases "k < n * 52")
    case True
    then show ?thesis using Suc.IH by (simp add: nth_append)
  next
    case False
    then obtain r where r: "k = n * 52 + r" "r < 52"
      using Suc.prems by (metis add_diff_inverse_nat mult_Suc nat_add_left_cancel_less add.commute)
    then show ?thesis by (simp add: nth_append)
  qed
qed

lemma drop_last8:
  assumes "length xs = n + 8"
  shows "xs = take n xs @ [xs ! n, xs ! (n + 1), xs ! (n + 2), xs ! (n + 3), xs ! (n + 4),
                           xs ! (n + 5), xs ! (n + 6), xs ! (n + 7)]"
proof -
  have "drop n xs = [xs ! n, xs ! (n + 1), xs ! (n + 2), xs ! (n + 3), xs ! (n + 4),
                           xs ! (n + 5), xs ! (n + 6), xs ! (n + 7)]"
    using assms
    by (simp add: Cons_nth_drop_Suc [symmetric] eval_nat_numeral)
  then show ?thesis by (metis append_take_drop_id)
qed

lemma new_shoe_length: "length (cards (new_Deck 6)) = 304 + 8"
  by (simp add: new_Deck_def length_initialize)

lemma new_shoe_nth: "k < 312 \<Longrightarrow> cards (new_Deck 6) ! k = one_deck ! (k mod 52)"
  by (simp add: new_Deck_def initialize_def full_shoe_nth)

lemmas deck_eval = one_deck_def SUITS_def RANKS_def

text \<open>With every draw equal to the loop index the shuffle moves no card.\<close>

lemma plain_shoe:
  "\<exists>pre. cards (shuffle identity_rnd (new_Deck 6)) =
     pre @ [createCard Clubs R6, createCard Clubs R7, createCard Clubs R8, createCard Clubs R9,
            createCard Clubs R10, createCard Clubs RJ, createCard Clubs RQ, createCard Clubs RK]"
proof -
  define A where "A = cards (new_Deck 6)"
  have "shuffle_loop identity_rnd 311 A = A"
    by (rule shuffle_loop_id) (simp add: identity_rnd_def rnd_of_def)
  then have F: "cards (shuffle identity_rnd (new_Deck 6)) = A"
    using new_shoe_length by (simp add: shuffle_def A_def)
  have "A = take 304 A @ [A ! 304, A ! (304 + 1), A ! (304 + 2), A ! (304 + 3), A ! (304 + 4),
                           A ! (304 + 5), A ! (304 + 6), A ! (304 + 7)]"
    unfolding A_def using new_shoe_length by (rule drop_last8)
  moreover have "A ! 304 = createCard Clubs R6" "A ! 305 = createCard Clubs R7"
    "A ! 306 = createCard Clubs R8" "A ! 307 = createCard Clubs R9"
    "A ! 308 = createCard Clubs R10" "A ! 309 = createCard Clubs RJ"
    "A ! 310 = createCard Clubs RQ" "A ! 311 = createCard Clubs RK"
    by (simp_all add: A_def new_shoe_nth deck_eval)
  ultimately have "A = take 304 A @ [createCard Clubs R6, createCard Clubs R7, createCard Clubs R8,
            createCard Clubs R9, createCard Clubs R10, createCard Clubs RJ, createCard Clubs RQ,
            createCard Clubs RK]"
    by simp
  then show ?thesis unfolding F by blast
qed

lemma split_shoe:
  "\<exists>pre. cards (shuffle split_rnd (new_Deck 6)) =
     pre @ [createCard Clubs R6, createCard Spades R8, createCard Clubs R8, createCard Diamonds R8,
            createCard Clubs R10, createCard Hearts R8, createCard Clubs RQ, createCard Spades R8]"
proof -
  define A where "A = cards (new_Deck 6)"
  have lenA [simp]: "length A = 312" using new_shoe_length by (simp add: A_def)
  have nthA: "k < 312 \<Longrightarrow> A ! k = one_deck ! (k mod 52)" for k
    unfolding A_def by (rule new_shoe_nth)
  have idl: "shuffle_loop split_rnd 304 a = a" for a
    by (rule shuffle_loop_id) (simp add: split_rnd_def rnd_of_def)
  have rnd: "split_rnd 311 = 7" "split_rnd 310 = 310" "split_rnd 309 = 20" "split_rnd 308 = 308"
    "split_rnd 307 = 33" "split_rnd 306 = 46" "split_rnd 305 = 59"
    by (simp_all add: split_rnd_def rnd_of_def)
  define F where "F = cards (shuffle split_rnd (new_Deck 6))"
  have F: "F = A[311 := A ! 7, 7 := A ! 311, 309 := A ! 20, 20 := A ! 309, 307 := A ! 33,
                 33 := A ! 307, 306 := A ! 46, 46 := A ! 306, 305 := A ! 59, 59 := A ! 305]"
    unfolding F_def shuffle_def A_def [symmetric]
    by (simp add: shuffle_loop_step [of 311] shuffle_loop_skip [of 310] shuffle_loop_step [of 309]
          shuffle_loop_skip [of 308] shuffle_loop_step [of 307] shuffle_loop_step [of 306]
          shuffle_loop_step [of 305] idl rnd)
  have lenF: "length F = 304 + 8" by (simp add: F)
  have "F = take 304 F @ [F ! 304, F ! (304 + 1), F ! (304 + 2), F ! (304 + 3), F ! (304 + 4),
                           F ! (304 + 5), F ! (304 + 6), F ! (304 + 7)]"
    using lenF by (rule drop_last8)
  moreover have "F ! 304 = createCard Clubs R6" "F ! 305 = createCard Spades R8"
    "F ! 306 = createCard Clubs R8" "F ! 307 = createCard Diamonds R8"
    "F ! 308 = createCard Clubs R10" "F ! 309 = createCard Hearts R8"
    "F ! 310 = createCard Clubs RQ" "F ! 311 = createCard Spades R8"
    by (simp_all add: F nthA deck_eval)
  ultimately have "F = take 304 F @ [createCard Clubs R6, createCard Spades R8, createCard Clubs R8,
            createCard Diamonds R8, createCard Clubs R10, createCard Hearts R8, createCard Clubs RQ,
            createCard Spades R8]"
    by simp
  then show ?thesis unfolding F_def by blast
qed

lemma insurance_shoe:
  "\<exists>pre. cards (shuffle insurance_rnd (new_Deck 6)) =
     pre @ [createCard Clubs R6, createCard Clubs R7, createCard Clubs R8, createCard Clubs R9,
            createCard Spades R5, createCard Clubs RJ, createCard Spades RA, createCard Clubs RK]"
proof -
  define A where "A = cards (new_Deck 6)"
  have lenA [simp]: "length A = 312" using new_shoe_length by (simp add: A_def)
  have nthA: "k < 312 \<Longrightarrow> A ! k = one_deck ! (k mod 52)" for k
    unfolding A_def by (rule new_shoe_nth)
  have idl: "shuffle_loop insurance_rnd 307 a = a" for a
    by (rule shuffle_loop_id) (simp add: insurance_rnd_def rnd_of_def)
  have rnd: "insurance_rnd 311 = 311" "insurance_rnd 310 = 0" "insurance_rnd 309 = 309"
    "insurance_rnd 308 = 4"
    by (simp_all add: insurance_rnd_def rnd_of_def)
  define F where "F = cards (shuffle insurance_rnd (new_Deck 6))"
  have F: "F = A[310 := A ! 0, 0 := A ! 310, 308 := A ! 4, 4 := A ! 308]"
    unfolding F_def shuffle_def A_def [symmetric]
    by (simp add: shuffle_loop_skip [of 311] shuffle_loop_step [of 310] shuffle_loop_skip [of 309]
          shuffle_loop_step [of 308] idl rnd)
  have lenF: "length F = 304 + 8" by (simp add: F)
  have "F = take 304 F @ [F ! 304, F ! (304 + 1), F ! (304 + 2), F ! (304 + 3), F ! (304 + 4),
                           F ! (304 + 5), F ! (304 + 6), F ! (304 + 7)]"
    using lenF by (rule drop_last8)
  moreover have "F ! 304 = createCard Clubs R6" "F ! 305 = createCard Clubs R7"
    "F ! 306 = createCard Clubs R8" "F ! 307 = createCard Clubs R9"
    "F ! 308 = createCard Spades R5" "F ! 309 = createCard Clubs RJ"
    "F ! 310 = createCard Spades RA" "F ! 311 = createCard Clubs RK"
    by (simp_all add: F nthA deck_eval)
  ultimately have "F = take 304 F @ [createCard Clubs R6, createCard Clubs R7, createCard Clubs R8,
            createCard Clubs R9, createCard Spades R5, createCard Clubs RJ, createCard Spades RA,
            createCard Clubs RK]"
    by simp
  then show ?thesis unfolding F_def by blast
qed

lemma dealer_blackjack_shoe:
  "\<exists>pre. cards (shuffle dealer_blackjack_rnd (new_Deck 6)) =
     pre @ [createCard Clubs R6, createCard Clubs R7, createCard Clubs R8, createCard Clubs R9,
            createCard Clubs R10, createCard Clubs RJ, createCard Spades RA, createCard Clubs RK]"
proof -
  define A where "A = cards (new_Deck 6)"
  have lenA [simp]: "length A = 312" using new_shoe_length by (simp add: A_def)
  have nthA: "k < 312 \<Longrightarrow> A ! k = one_deck ! (k mod 52)" for k
    unfolding A_def by (rule new_shoe_nth)
  have idl: "shuffle_loop dealer_blackjack_rnd 309 a = a" for a
    by (rule shuffle_loop_id) (simp add: dealer_blackjack_rnd_def rnd_of_def)
  have rnd: "dealer_blackjack_rnd 311 = 311" "dealer_blackjack_rnd 310 = 0"
    by (simp_all add: dealer_blackjack_rnd_def rnd_of_def)
  define F where "F = cards (shuffle dealer_blackjack_rnd (new_Deck 6))"
  have F: "F = A[310 := A ! 0, 0 := A ! 310]"
    unfolding F_def shuffle_def A_def [symmetric]
    by (simp add: shuffle_loop_skip [of 311] shuffle_loop_step [of 310] idl rnd)
  have lenF: "length F = 304 + 8" by (simp add: F)
  have "F = take 304 F @ [F ! 304, F ! (304 + 1), F ! (304 + 2), F ! (304 + 3), F ! (304 + 4),
                           F ! (304 + 5), F ! (304 + 6), F ! (304 + 7)]"
    using lenF by (rule drop_last8)
  moreover have "F ! 304 = createCard Clubs R6" "F ! 305 = createCard Clubs R7"
    "F ! 306 = createCard Clubs R8" "F ! 307 = createCard Clubs R9"
    "F ! 308 = createCard Clubs R10" "F ! 309 = createCard Clubs RJ"
    "F ! 310 = createCard Spades RA" "F ! 311 = createCard Clubs RK"
    by (simp_all add: F nthA deck_eval)
  ultimately have "F = take 304 F @ [createCard Clubs R6, createCard Clubs R7, createCard Clubs R8,
            createCard Clubs R9, createCard Clubs R10, createCard Clubs RJ, createCard Spades RA,
            createCard Clubs RK]"
    by simp
  then show ?thesis unfolding F_def by blast
qed

section \<open>Evaluating rounds\<close>

lemma bind_weak_cong: "x = y \<Longrightarrow> Option.bind x f = Option.bind y f"
  by simp

lemma shuffle_fields [simp]:
  "dealtCards (shuffle rnd d) = []" "runningCount (shuffle rnd d) = 0"
  "deckCount (shuffle rnd d) = deckCount d" "penetration (shuffle rnd d) = penetration d"
  "countingSystem (shuffle rnd d) = countingSystem d"
  by (simp_all add: shuffle_def)

lemma new_Deck_fields [simp]:
  "deckCount (new_Deck n) = n" "penetration (new_Deck n) = 3 / 4"
  "countingSystem (new_Deck n) = ''hi-lo''"
  by (simp_all add: new_Deck_def initialize_def)

lemmas game_eval = bet_and_deal_def play_def placeBet_def deal_def split_def surrender_def
  stand_def hit_def handleInsuranceDecision_def handleHandComplete_def dealerTurn_def
  dealCardToHand_def getHand_def putHand_def currentHand_def setCurrentHand_def Deck_deal_def
  updateCount_def needsReshuffle_def handleBlackjack_def revealHoleCard_def isBlackjack_def
  Hand_canSplit_def new_BlackjackGame_def default_settings_def empty_stats_def clear_def
  COUNTING_SYSTEMS_def game_canSplit_def resolveHands_def resolveHands_loop_def resolveHand_def
  endRound_def shouldDealerHit_def isSoft_def updateSettings_def holeCard_def table_weight_def
  card_weight_def Let_def butlast_append last_append

section \<open>Splitting\<close>

text \<open>
  \<open>split\<close> re-validates the phase, the pair and the balance, and nothing else: whenever these
  hold and the shoe has a card, it adds a hand, however many hands there are.
\<close>

lemma split_adds_a_hand:
  assumes "state g = PLAYER_TURN" and "currentHand g = Some ch" and "Hand_canSplit ch"
    and "bet ch \<le> balance g" and "cards (deck g) \<noteq> []"
  shows "\<exists>g'. split g = Some g' \<and> length (playerHands g') = Suc (length (playerHands g))
     \<and> balance g' = balance g - bet ch"
proof -
  have idx: "currentHandIndex g < length (playerHands g)"
    using assms(2) by (simp add: currentHand_def split: if_splits)
  then have ch: "playerHands g ! currentHandIndex g = ch"
    using assms(2) by (simp add: currentHand_def)
  show ?thesis
    using assms(1,3,4,5) idx ch
    by (auto simp add: split_def Let_def currentHand_def dealCardToHand_def getHand_def putHand_def
          setCurrentHand_def Deck_deal_def nth_append min_def)
qed

text \<open>
  Claim C3 at a failing input. A new game whose shuffle puts eights on top, a bet of 100, the
  deal and three splits give four hands, with a pair of eights as the current hand and 9600
  in the balance; \<open>canSplit\<close> is false there. A fourth call of \<open>split\<close> is not declined:
  it takes 100 more and leaves five hands.
\<close>

theorem split_fifth_hand:
  "map_option (length \<circ> playerHands) split_round = Some 4
   \<and> map_option state split_round = Some PLAYER_TURN
   \<and> map_option balance split_round = Some 9600
   \<and> Option.bind split_round game_canSplit = Some False
   \<and> map_option (length \<circ> playerHands) (play split_round split) = Some 5
   \<and> map_option balance (play split_round split) = Some 9500"
proof -
  obtain pre where shoe: "cards (shuffle split_rnd (new_Deck 6)) =
     pre @ [createCard Clubs R6, createCard Spades R8, createCard Clubs R8, createCard Diamonds R8,
            createCard Clubs R10, createCard Hearts R8, createCard Clubs RQ, createCard Spades R8]"
    using split_shoe by blast
  show ?thesis
    by (simp add: split_round_def game_eval shoe hand_eval
          cong: bind_weak_cong let_weak_cong prod.case_cong_weak)
qed

section \<open>Surrender\<close>

declare dealerDraw.simps [simp del]

text \<open>
  What \<open>resolveHands\<close> does with a lone surrendered hand: it adds half the stake to the
  balance, and hands half the stake, as a loss, to \<open>notifyResult\<close>.
\<close>

lemma resolveHands_loop_surrendered:
  "playerHands g = [h] \<Longrightarrow> isSurrendered h \<Longrightarrow>
   resolveHands_loop g = (balance g + bet h / 2, stats g, bet h / 2 - bet h)
   \<and> balance (resolveHands g) = balance g + bet h / 2"
  by (simp add: resolveHands_loop_def resolveHand_def resolveHands_def endRound_def)

text \<open>
  Claim C1 at a failing input. A new game holds 10000. After a bet of 100 and the deal (king
  and jack against queen and a hidden ten) the balance is 9900; \<open>surrender\<close> ends the round
  with the balance back at 10000, not at 9950: \<open>surrender\<close> returns 50 and \<open>resolveHands\<close>
  pays the surrendered hand 50 once more.
\<close>

theorem surrender_refunds_stake_twice:
  "map_option state plain_round = Some PLAYER_TURN
   \<and> map_option balance plain_round = Some 9900
   \<and> map_option state (play plain_round surrender) = Some GAME_OVER
   \<and> map_option (map isSurrendered \<circ> playerHands) (play plain_round surrender) = Some [True]
   \<and> map_option balance (play plain_round surrender) = Some 10000"
proof -
  obtain pre where shoe: "cards (shuffle identity_rnd (new_Deck 6)) =
     pre @ [createCard Clubs R6, createCard Clubs R7, createCard Clubs R8, createCard Clubs R9,
            createCard Clubs R10, createCard Clubs RJ, createCard Clubs RQ, createCard Clubs RK]"
    using plain_shoe by blast
  show ?thesis
    by (simp add: plain_round_def game_eval shoe hand_eval
          cong: bind_weak_cong let_weak_cong prod.case_cong_weak)
qed

section \<open>The running count\<close>

lemma updateCount_face_down: "\<not> faceUp c \<Longrightarrow> updateCount (Some c) d = d"
  by (simp add: updateCount_def)

lemma updateCount_runningCount:
  "runningCount (updateCount (Some c) d) = runningCount d + card_weight d c"
  by (simp add: updateCount_def card_weight_def split: option.splits)

lemma revealHoleCard_Some:
  "hand_cards (dealerHand g) = c0 # c1 # rest \<Longrightarrow>
   revealHoleCard g =
     Some (g\<lparr>dealerHand := (dealerHand g)\<lparr>hand_cards := c0 # c1\<lparr>faceUp := True\<rparr> # rest\<rparr>,
             deck := updateCount (Some (c1\<lparr>faceUp := True\<rparr>)) (deck g)\<rparr>)"
  by (simp add: revealHoleCard_def)

lemma card_weight_cong: "countingSystem d' = countingSystem d \<Longrightarrow> card_weight d' = card_weight d"
  by (rule ext) (simp add: card_weight_def)

lemma card_weight_face_down [simp]: "card_weight d (c\<lparr>faceUp := False\<rparr>) = 0"
  by (simp add: card_weight_def)

lemma updateCount_system [simp]: "countingSystem (updateCount c d) = countingSystem d"
  by (simp add: updateCount_def split: option.splits)

lemma hands_weight_update:
  "i < length hs \<Longrightarrow>
   sum_list (map f (concat (map hand_cards (hs[i := h])))) =
     sum_list (map f (concat (map hand_cards hs))) - sum_list (map f (hand_cards (hs ! i)))
       + sum_list (map f (hand_cards h))"
  for f :: "Card \<Rightarrow> int"
proof (induction hs arbitrary: i)
  case Nil
  then show ?case by simp
next
  case (Cons x xs)
  then show ?case by (cases i) simp_all
qed

text \<open>
  A dealt card changes the running count and the weight of the table alike: by its weight
  when it is dealt face-up, not at all when it is dealt face-down.
\<close>

lemma dealCardToHand_count:
  assumes "dealCardToHand ref fu g = Some g'"
  shows "count_offset g' = count_offset g \<and> countingSystem (deck g') = countingSystem (deck g)"
proof -
  obtain hand where hand: "getHand ref g = Some hand"
    using assms by (auto simp add: dealCardToHand_def split: option.splits)
  obtain c d1 where dd: "Deck_deal (deck g) = (Some c, d1)"
    using assms hand by (auto simp add: dealCardToHand_def split: option.splits prod.splits)
  have d1: "runningCount d1 = runningCount (deck g)" "countingSystem d1 = countingSystem (deck g)"
    using dd by (auto simp add: Deck_deal_def split: if_splits)
  define d2 where "d2 = (if fu then updateCount (Some (c\<lparr>faceUp := fu\<rparr>)) d1 else d1)"
  have g': "g' = putHand ref (addCard hand (c\<lparr>faceUp := fu\<rparr>)) (g\<lparr>deck := d2\<rparr>)"
    using assms hand dd by (simp add: dealCardToHand_def d2_def Let_def)
  have sys: "countingSystem d2 = countingSystem (deck g)"
    by (simp add: d2_def d1)
  have rc: "runningCount d2 = runningCount (deck g) + card_weight (deck g) (c\<lparr>faceUp := fu\<rparr>)"
    using d1 by (cases fu) (simp_all add: d2_def updateCount_runningCount card_weight_cong [OF d1(2)])
  have w: "card_weight d2 = card_weight (deck g)"
    using sys by (rule card_weight_cong)
  have tw: "table_weight g' = table_weight g + card_weight (deck g) (c\<lparr>faceUp := fu\<rparr>)"
  proof (cases ref)
    case CurrentHand
    then have idx: "currentHandIndex g < length (playerHands g)"
      and h: "hand = playerHands g ! currentHandIndex g"
      using hand by (auto simp add: getHand_def currentHand_def split: if_splits)
    show ?thesis
      using CurrentHand idx h
      by (simp add: g' putHand_def setCurrentHand_def table_weight_def w hands_weight_update)
  next
    case DealerHand
    then have "hand = dealerHand g" using hand by (simp add: getHand_def)
    then show ?thesis
      using DealerHand by (simp add: g' putHand_def table_weight_def w)
  qed
  have "deck g' = d2" by (cases ref) (simp_all add: g' putHand_def setCurrentHand_def)
  then show ?thesis using rc tw sys by (simp add: count_offset_def)
qed

text \<open>
  Turning the dealer's second card over adds its weight to the running count. The weight of
  the table grows by as much only if the card lay face-down: a card that was already face-up
  is on the table with its weight, and the difference grows by that weight.
\<close>

lemma revealHoleCard_count:
  assumes "hand_cards (dealerHand g) = c0 # c1 # rest"
  shows "\<exists>g'. revealHoleCard g = Some g'
     \<and> runningCount (deck g') = runningCount (deck g) + card_weight (deck g) (c1\<lparr>faceUp := True\<rparr>)
     \<and> count_offset g' = count_offset g + card_weight (deck g) c1"
proof -
  have w: "card_weight (updateCount x (deck g)) = card_weight (deck g)" for x
    by (rule card_weight_cong) simp
  show ?thesis
    using assms
    by (simp add: revealHoleCard_Some [OF assms] count_offset_def table_weight_def
          updateCount_runningCount w)
qed

text \<open>
  Claim C9 at a failing input. With the setting \<open>dealerHoleCard\<close> off, the deal of king and
  jack against queen and ten shows four cards of weight -1 each, and the running count is -4.
  The player stands; the dealer, on 20, draws nothing. The four cards on the table are the
  same, four cards have left the shoe, and the running count is -5: \<open>dealerTurn\<close> counts the
  dealer's second card again. With the setting on, that card is dealt face-down and counted
  once, when \<open>dealerTurn\<close> turns it over.
\<close>

theorem open_hole_card_counted_twice:
  "map_option (map faceUp \<circ> hand_cards \<circ> dealerHand) open_round = Some [True, True]
   \<and> map_option (runningCount \<circ> deck) open_round = Some (- 4)
   \<and> map_option table_weight open_round = Some (- 4)
   \<and> map_option state (play open_round stand) = Some GAME_OVER
   \<and> map_option (length \<circ> dealtCards \<circ> deck) (play open_round stand) = Some 4
   \<and> map_option table_weight (play open_round stand) = Some (- 4)
   \<and> map_option (runningCount \<circ> deck) (play open_round stand) = Some (- 5)
   \<and> map_option (map faceUp \<circ> hand_cards \<circ> dealerHand) plain_round = Some [True, False]
   \<and> map_option (runningCount \<circ> deck) plain_round = Some (- 3)
   \<and> map_option table_weight plain_round = Some (- 3)
   \<and> map_option table_weight (play plain_round stand) = Some (- 4)
   \<and> map_option (runningCount \<circ> deck) (play plain_round stand) = Some (- 4)"
proof -
  obtain pre where shoe: "cards (shuffle identity_rnd (new_Deck 6)) =
     pre @ [createCard Clubs R6, createCard Clubs R7, createCard Clubs R8, createCard Clubs R9,
            createCard Clubs R10, createCard Clubs RJ, createCard Clubs RQ, createCard Clubs RK]"
    using plain_shoe by blast
  show ?thesis
    by (simp add: open_round_def plain_round_def game_eval shoe hand_eval dealerDraw.simps
          cong: bind_weak_cong let_weak_cong prod.case_cong_weak)
qed

section \<open>Insurance\<close>

text \<open>
  Claim C2 as stated fails when neither side has blackjack. The deal gives king and jack
  against an ace and a hidden five; that is the insurance phase, with a running count of -3.
  After \<open>handleInsuranceDecision(false)\<close> the player is to act, the five is still face-down
  and the running count is still -3, although a five weighs +1.
\<close>

theorem insurance_hole_card_counterexample:
  "map_option state insurance_round = Some INSURANCE
   \<and> map_option (runningCount \<circ> deck) insurance_round = Some (- 3)
   \<and> map_option state (play insurance_round (handleInsuranceDecision False)) = Some PLAYER_TURN
   \<and> map_option holeCard (play insurance_round (handleInsuranceDecision False))
       = Some \<lparr>suit = Spades, rank = R5, faceUp = False\<rparr>
   \<and> map_option (runningCount \<circ> deck) (play insurance_round (handleInsuranceDecision False))
       = Some (- 3)
   \<and> hi_lo R5 = 1"
proof -
  obtain pre where shoe: "cards (shuffle insurance_rnd (new_Deck 6)) =
     pre @ [createCard Clubs R6, createCard Clubs R7, createCard Clubs R8, createCard Clubs R9,
            createCard Spades R5, createCard Clubs RJ, createCard Spades RA, createCard Clubs RK]"
    using insurance_shoe by blast
  show ?thesis
    by (simp add: insurance_round_def game_eval shoe hand_eval
          cong: bind_weak_cong let_weak_cong prod.case_cong_weak)
qed

lemma isBlackjack_insuranceBet [simp]: "isBlackjack (h\<lparr>insuranceBet := x\<rparr>) = isBlackjack h"
  by (simp add: isBlackjack_def getValue_def)

lemma handleBlackjack_reveals:
  assumes "currentHand g = Some ch" and "hand_cards (dealerHand g) = c0 # c1 # rest"
  shows "\<exists>g'. handleBlackjack g = Some g' \<and> faceUp (holeCard g')
     \<and> runningCount (deck g') = runningCount (deck g) + card_weight (deck g) (c1\<lparr>faceUp := True\<rparr>)
     \<and> state g' = GAME_OVER"
proof -
  have cur: "currentHand (g\<lparr>dealerHand := dh, deck := dk\<rparr>) = Some ch" for dh dk
    using assms(1) by (simp add: currentHand_def split: if_splits)
  show ?thesis
    by (simp add: handleBlackjack_def revealHoleCard_Some [OF assms(2)] cur endRound_def
          holeCard_def updateCount_runningCount Let_def)
qed

text \<open>
  Claim C2, as the code has it. In the insurance phase, with the current hand and the
  dealer's two cards there, \<open>handleInsuranceDecision\<close> returns whatever the decision. When the
  dealer or the player has blackjack, the hole card is face-up afterwards, its weight has been
  added to the running count and the round is over. When neither has, the hole card and the
  running count are as before and the player is to act.
\<close>

theorem handleInsuranceDecision_reveal:
  assumes "state g = INSURANCE"
    and "currentHand g = Some ch"
    and "hand_cards (dealerHand g) = c0 # c1 # rest"
  shows "\<exists>g'. handleInsuranceDecision takeInsurance g = Some g' \<and>
     (if isBlackjack (dealerHand g) \<or> isBlackjack ch
      then faceUp (holeCard g')
           \<and> runningCount (deck g')
               = runningCount (deck g) + card_weight (deck g) (c1\<lparr>faceUp := True\<rparr>)
           \<and> state g' = GAME_OVER
      else holeCard g' = c1
           \<and> runningCount (deck g') = runningCount (deck g)
           \<and> state g' = PLAYER_TURN)"
proof -
  have idx: "currentHandIndex g < length (playerHands g)"
    using assms(2) by (simp add: currentHand_def split: if_splits)
  then have ch: "playerHands g ! currentHandIndex g = ch"
    using assms(2) by (simp add: currentHand_def)
  show ?thesis
    using assms(1,3) idx ch
    by (simp add: handleInsuranceDecision_def Let_def currentHand_def setCurrentHand_def
          revealHoleCard_def handleBlackjack_def endRound_def holeCard_def
          updateCount_runningCount)
qed

text \<open>
  The insurance phase after the deal of king and jack against an ace and a hidden ten, with
  insurance taken: the dealer has blackjack, the ten is turned over and counted, the insurance
  pays 150 on the 50 staked and the hand loses its 100.
\<close>

theorem handleInsuranceDecision_reveal_witness:
  "map_option state dealer_blackjack_round = Some INSURANCE
   \<and> map_option (runningCount \<circ> deck) dealer_blackjack_round = Some (- 3)
   \<and> map_option (faceUp \<circ> holeCard) (play dealer_blackjack_round (handleInsuranceDecision True))
       = Some True
   \<and> map_option (runningCount \<circ> deck) (play dealer_blackjack_round (handleInsuranceDecision True))
       = Some (- 4)
   \<and> map_option state (play dealer_blackjack_round (handleInsuranceDecision True)) = Some GAME_OVER"
proof -
  obtain pre where shoe: "cards (shuffle dealer_blackjack_rnd (new_Deck 6)) =
     pre @ [createCard Clubs R6, createCard Clubs R7, createCard Clubs R8, createCard Clubs R9,
            createCard Clubs R10, createCard Clubs RJ, createCard Spades RA, createCard Clubs RK]"
    using dealer_blackjack_shoe by blast
  have "\<exists>g. dealer_blackjack_round = Some g \<and> state g = INSURANCE
      \<and> currentHand g = Some (hd (playerHands g))
      \<and> hand_cards (dealerHand g) = [createCard Spades RA, (createCard Clubs R10)\<lparr>faceUp := False\<rparr>]
      \<and> isBlackjack (dealerHand g)
      \<and> runningCount (deck g) = - 3
      \<and> countingSystem (deck g) = ''hi-lo''"
    by (simp add: dealer_blackjack_round_def game_eval shoe hand_eval
          cong: bind_weak_cong let_weak_cong prod.case_cong_weak)
  then obtain g where g: "dealer_blackjack_round = Some g" "state g = INSURANCE"
      "currentHand g = Some (hd (playerHands g))"
      "hand_cards (dealerHand g) = [createCard Spades RA, (createCard Clubs R10)\<lparr>faceUp := False\<rparr>]"
      "isBlackjack (dealerHand g)" "runningCount (deck g) = - 3"
      "countingSystem (deck g) = ''hi-lo''"
    by blast
  from handleInsuranceDecision_reveal [OF g(2) g(3) g(4), of True]
  obtain g' where g': "handleInsuranceDecision True g = Some g'" "faceUp (holeCard g')"
    "runningCount (deck g') = - 4" "state g' = GAME_OVER"
    using g(5,6,7) by (auto simp add: card_weight_def COUNTING_SYSTEMS_def createCard_def)
  have after: "play dealer_blackjack_round (handleInsuranceDecision True) = Some g'"
    by (simp add: play_def g(1) g'(1))
  show ?thesis unfolding after by (simp add: g(1) g(2) g(6) g'(2) g'(3) g'(4))
qed

section \<open>Betting\<close>

text \<open>
  Claim C8. If the phase is not the betting phase, or the amount is below the minimum, above
  the maximum or above the balance, \<open>placeBet\<close> returns false and the game is as it was.
  Otherwise (the game has its first hand, as every game the engine builds has) it returns
  true, and the new game differs from the old in four places: the current bet and the stake
  of hand 0 are the amount, the balance is lower by the amount and the total wagered higher
  by it.
\<close>

theorem placeBet_spec:
  "(state g \<noteq> BETTING \<or> amount < minBet (settings g) \<or> amount > maxBet (settings g)
      \<or> amount > balance g
    \<longrightarrow> placeBet amount g = Some (False, g))
   \<and> (\<not> (state g \<noteq> BETTING \<or> amount < minBet (settings g) \<or> amount > maxBet (settings g)
          \<or> amount > balance g)
      \<longrightarrow> playerHands g = h # hs
      \<longrightarrow> placeBet amount g =
            Some (True,
              g\<lparr>currentBet := amount,
                balance := balance g - amount,
                playerHands := h\<lparr>bet := amount\<rparr> # hs,
                stats := (stats g)\<lparr>totalWagered := totalWagered (stats g) + amount\<rparr>\<rparr>))"
  by (auto simp add: placeBet_def)

text \<open>
  On a new game (balance 10000, limits 10 and 999000000000) a bet of 5 is refused and a bet
  of 100 is taken.
\<close>

theorem placeBet_spec_witness:
  "placeBet 5 (new_BlackjackGame identity_rnd) = Some (False, new_BlackjackGame identity_rnd)
   \<and> map_option fst (placeBet 100 (new_BlackjackGame identity_rnd)) = Some True
   \<and> map_option (balance \<circ> snd) (placeBet 100 (new_BlackjackGame identity_rnd)) = Some 9900
   \<and> map_option (map bet \<circ> playerHands \<circ> snd) (placeBet 100 (new_BlackjackGame identity_rnd))
       = Some [100]
   \<and> map_option (totalWagered \<circ> stats \<circ> snd) (placeBet 100 (new_BlackjackGame identity_rnd))
       = Some 100"
proof -
  let ?g = "new_BlackjackGame identity_rnd"
  have low: "5 < minBet (settings ?g)"
    by (simp add: new_BlackjackGame_def default_settings_def)
  have ok: "\<not> (state ?g \<noteq> BETTING \<or> 100 < minBet (settings ?g) \<or> 100 > maxBet (settings ?g)
          \<or> 100 > balance ?g)"
    by (simp add: new_BlackjackGame_def default_settings_def)
  have hands: "playerHands ?g = new_Hand # []"
    by (simp add: new_BlackjackGame_def)
  have "placeBet 5 ?g = Some (False, ?g)"
    using placeBet_spec [of ?g 5] low by blast
  moreover have "placeBet 100 ?g =
            Some (True,
              ?g\<lparr>currentBet := 100,
                balance := balance ?g - 100,
                playerHands := new_Hand\<lparr>bet := 100\<rparr> # [],
                stats := (stats ?g)\<lparr>totalWagered := totalWagered (stats ?g) + 100\<rparr>\<rparr>)"
    using placeBet_spec [of ?g 100 new_Hand "[]"] ok hands by blast
  ultimately show ?thesis
    by (simp add: new_BlackjackGame_def empty_stats_def)
qed

section \<open>Deviations\<close>



lemma DEVIATION_INDICES_TT:
  "DEVIATION_INDICES (K_TT d) = Some dev \<Longrightarrow> dev_action dev = A_SPLIT \<and> belowAction dev = None"
  by (auto simp add: DEVIATION_INDICES_def split: if_splits)




section \<open>The running count through a round with a hidden hole card\<close>

lemma hole_hiddenE:
  assumes "hole_hidden g"
  obtains c0 c1 where "hand_cards (dealerHand g) = [c0, c1]" and "\<not> faceUp c1"
  using assms by (auto simp add: hole_hidden_def split: list.splits)

lemma count_offset_cong:
  assumes "runningCount (deck g') = runningCount (deck g)"
    and "countingSystem (deck g') = countingSystem (deck g)"
    and "map hand_cards (playerHands g') = map hand_cards (playerHands g)"
    and "hand_cards (dealerHand g') = hand_cards (dealerHand g)"
  shows "count_offset g' = count_offset g"
  using assms card_weight_cong [OF assms(2)]
  by (simp add: count_offset_def table_weight_def)

lemma setCurrentHand_same_cards:
  assumes "currentHand g = Some ch" and "hand_cards h = hand_cards ch"
  shows "count_offset (setCurrentHand h g) = count_offset g"
    and "dealerHand (setCurrentHand h g) = dealerHand g"
    and "state (setCurrentHand h g) = state g"
    and "currentHand (setCurrentHand h g) = Some h"
    and "length (playerHands (setCurrentHand h g)) = length (playerHands g)"
    and "currentHandIndex (setCurrentHand h g) = currentHandIndex g"
proof -
  have idx: "currentHandIndex g < length (playerHands g)"
    and ch: "playerHands g ! currentHandIndex g = ch"
    using assms(1) by (auto simp add: currentHand_def split: if_splits)
  have "map hand_cards ((playerHands g)[currentHandIndex g := h]) = map hand_cards (playerHands g)"
    using idx ch assms(2) by (simp add: map_update list_update_same_conv)
  then show "count_offset (setCurrentHand h g) = count_offset g"
    by (intro count_offset_cong) (simp_all add: setCurrentHand_def)
  show "dealerHand (setCurrentHand h g) = dealerHand g" "state (setCurrentHand h g) = state g"
    "length (playerHands (setCurrentHand h g)) = length (playerHands g)"
    "currentHandIndex (setCurrentHand h g) = currentHandIndex g"
    by (simp_all add: setCurrentHand_def)
  show "currentHand (setCurrentHand h g) = Some h"
    using idx by (simp add: setCurrentHand_def currentHand_def)
qed

lemma dealCardToHand_current_frame:
  assumes "dealCardToHand CurrentHand fu g = Some g'"
  shows "dealerHand g' = dealerHand g" and "state g' = state g"
    and "settings g' = settings g"
  using assms
  by (auto simp add: dealCardToHand_def putHand_def setCurrentHand_def Let_def
        split: option.splits prod.splits)

lemma resolveHands_count: "count_offset (resolveHands g) = count_offset g"
  and resolveHands_state: "state (resolveHands g) = GAME_OVER"
  by (simp_all add: resolveHands_def endRound_def count_offset_def table_weight_def
        split: prod.splits)

lemma dealerDraw_count: "dealerDraw g = Some g' \<Longrightarrow> count_offset g' = count_offset g"
proof (induction g rule: dealerDraw.induct)
  case (1 g)
  show ?case
  proof (cases "shouldDealerHit g")
    case False
    with "1.prems" show ?thesis by (simp add: dealerDraw.simps [of g])
  next
    case True
    with "1.prems" obtain g1 where g1: "dealCardToHand DealerHand True g = Some g1"
      and rest: "dealerDraw g1 = Some g'"
      by (auto simp add: dealerDraw.simps [of g] split: option.splits)
    from "1.IH" [OF True g1 rest] dealCardToHand_count [OF g1]
    show ?thesis by simp
  qed
qed

lemma revealHoleCard_hidden:
  assumes "hole_hidden g"
  shows "\<exists>g'. revealHoleCard g = Some g' \<and> count_offset g' = count_offset g"
proof -
  from assms obtain c0 c1 where c: "hand_cards (dealerHand g) = [c0, c1]" "\<not> faceUp c1"
    by (rule hole_hiddenE)
  from revealHoleCard_count [of g c0 c1 "[]"] c show ?thesis
    by (auto simp add: card_weight_def)
qed

lemma dealerTurn_count:
  assumes "hole_hidden g" and "dealerTurn g = Some g'"
  shows "count_offset g' = count_offset g \<and> state g' = GAME_OVER"
proof (cases "list_all (\<lambda>h. isBusted h \<or> isSurrendered h) (playerHands g)")
  case True
  from revealHoleCard_hidden [OF assms(1)] obtain g1 where
    g1: "revealHoleCard g = Some g1" "count_offset g1 = count_offset g" by blast
  with True assms(2) have "g' = resolveHands g1" by (simp add: dealerTurn_def)
  with g1 show ?thesis by (simp add: resolveHands_count resolveHands_state)
next
  case False
  have h: "hole_hidden (g\<lparr>state := DEALER_TURN\<rparr>)"
    using assms(1) by (simp add: hole_hidden_def)
  have o: "count_offset (g\<lparr>state := DEALER_TURN\<rparr>) = count_offset g"
    by (simp add: count_offset_def table_weight_def)
  from revealHoleCard_hidden [OF h] obtain g1 where
    g1: "revealHoleCard (g\<lparr>state := DEALER_TURN\<rparr>) = Some g1"
      "count_offset g1 = count_offset (g\<lparr>state := DEALER_TURN\<rparr>)" by blast
  with False assms(2) obtain g2 where g2: "dealerDraw g1 = Some g2" "g' = resolveHands g2"
    by (auto simp add: dealerTurn_def split: option.splits)
  from dealerDraw_count [OF g2(1)] g1 o g2(2) show ?thesis
    by (simp add: resolveHands_count resolveHands_state)
qed

lemma handleHandComplete_count:
  assumes "hole_hidden g" and "handleHandComplete g = Some g'"
  shows "count_offset g' = count_offset g
     \<and> (state g' = GAME_OVER \<or> state g' = state g \<and> hole_hidden g')"
proof (cases "currentHandIndex g + 1 < length (playerHands g)")
  case False
  with assms(2) have "dealerTurn g = Some g'" by (simp add: handleHandComplete_def)
  from dealerTurn_count [OF assms(1) this] show ?thesis by simp
next
  case True
  let ?g1 = "g\<lparr>currentHandIndex := currentHandIndex g + 1\<rparr>"
  have g1: "count_offset ?g1 = count_offset g" "dealerHand ?g1 = dealerHand g"
    "state ?g1 = state g"
    by (simp_all add: count_offset_def table_weight_def)
  have "\<exists>ch. currentHand ?g1 = Some ch
      \<and> (if length (hand_cards ch) = 1 then dealCardToHand CurrentHand True ?g1 else Some ?g1)
            = Some g'"
    using True assms(2)
    by (auto simp add: handleHandComplete_def Let_def split: option.splits if_splits)
  then obtain ch where ch: "currentHand ?g1 = Some ch"
    and r: "(if length (hand_cards ch) = 1 then dealCardToHand CurrentHand True ?g1 else Some ?g1)
              = Some g'"
    by blast
  show ?thesis
  proof (cases "length (hand_cards ch) = 1")
    case True
    with r have d: "dealCardToHand CurrentHand True ?g1 = Some g'" by simp
    from dealCardToHand_count [OF d] dealCardToHand_current_frame [OF d] g1 assms(1)
    show ?thesis by (simp add: hole_hidden_def)
  next
    case False
    with r have "g' = ?g1" by simp
    with g1 assms(1) show ?thesis by (simp add: hole_hidden_def)
  qed
qed

lemma bind_SomeE:
  assumes "Option.bind x f = Some y"
  obtains z where "x = Some z" and "f z = Some y"
  using assms by (cases x) simp_all

lemma hit_count:
  assumes "hole_hidden g" and "hit g = Some g'"
  shows "count_offset g' = count_offset g
     \<and> (state g' = GAME_OVER \<or> state g' = state g \<and> hole_hidden g')"
proof (cases "state g = PLAYER_TURN")
  case False
  with assms show ?thesis by (simp add: hit_def)
next
  case True
  from assms(2) True have b: "Option.bind (dealCardToHand CurrentHand True g) (\<lambda>g1.
        Option.bind (currentHand g1) (\<lambda>ch.
          if isBusted ch then handleHandComplete g1
          else if getValue ch = 21 \<and> autoStandOn21 (settings g1)
            then handleHandComplete (setCurrentHand (ch\<lparr>isStood := True\<rparr>) g1)
          else Some g1)) = Some g'"
    by (simp add: hit_def)
  then obtain g1 where d: "dealCardToHand CurrentHand True g = Some g1"
    and b1: "Option.bind (currentHand g1) (\<lambda>ch.
          if isBusted ch then handleHandComplete g1
          else if getValue ch = 21 \<and> autoStandOn21 (settings g1)
            then handleHandComplete (setCurrentHand (ch\<lparr>isStood := True\<rparr>) g1)
          else Some g1) = Some g'"
    by (rule bind_SomeE)
  from b1 obtain ch where ch: "currentHand g1 = Some ch"
    and r: "(if isBusted ch then handleHandComplete g1
             else if getValue ch = 21 \<and> autoStandOn21 (settings g1)
               then handleHandComplete (setCurrentHand (ch\<lparr>isStood := True\<rparr>) g1)
             else Some g1) = Some g'"
    by (rule bind_SomeE)
  have g1: "count_offset g1 = count_offset g" "state g1 = state g" "hole_hidden g1"
    using dealCardToHand_count [OF d] dealCardToHand_current_frame [OF d] assms(1)
    by (simp_all add: hole_hidden_def)
  let ?g2 = "setCurrentHand (ch\<lparr>isStood := True\<rparr>) g1"
  have g2: "count_offset ?g2 = count_offset g" "state ?g2 = state g" "hole_hidden ?g2"
    using setCurrentHand_same_cards [OF ch, of "ch\<lparr>isStood := True\<rparr>"] g1
    by (simp_all add: hole_hidden_def)
  show ?thesis
  proof (cases "isBusted ch")
    case True
    with r have "handleHandComplete g1 = Some g'" by simp
    from handleHandComplete_count [OF g1(3) this] g1 show ?thesis by simp
  next
    case not_busted: False
    show ?thesis
    proof (cases "getValue ch = 21 \<and> autoStandOn21 (settings g1)")
      case True
      with r not_busted have "handleHandComplete ?g2 = Some g'" by simp
      from handleHandComplete_count [OF g2(3) this] g2 show ?thesis by simp
    next
      case False
      with r not_busted have "Some g1 = Some g'" by auto
      then have "g' = g1" by simp
      with g1 show ?thesis by simp
    qed
  qed
qed

lemma stand_count:
  assumes "hole_hidden g" and "stand g = Some g'"
  shows "count_offset g' = count_offset g
     \<and> (state g' = GAME_OVER \<or> state g' = state g \<and> hole_hidden g')"
proof (cases "state g = PLAYER_TURN")
  case False
  with assms show ?thesis by (simp add: stand_def)
next
  case True
  have "\<exists>ch. currentHand g = Some ch
      \<and> handleHandComplete (setCurrentHand (ch\<lparr>isStood := True\<rparr>) g) = Some g'"
    using assms(2) True by (simp add: stand_def bind_eq_Some_conv)
  then obtain ch where ch: "currentHand g = Some ch"
    and r: "handleHandComplete (setCurrentHand (ch\<lparr>isStood := True\<rparr>) g) = Some g'"
    by blast
  let ?g2 = "setCurrentHand (ch\<lparr>isStood := True\<rparr>) g"
  have g2: "count_offset ?g2 = count_offset g" "state ?g2 = state g" "hole_hidden ?g2"
    using setCurrentHand_same_cards [OF ch, of "ch\<lparr>isStood := True\<rparr>"] assms(1)
    by (simp_all add: hole_hidden_def)
  from handleHandComplete_count [OF g2(3) r] g2 show ?thesis by simp
qed

lemma surrender_count:
  assumes "hole_hidden g" and "surrender g = Some g'"
  shows "count_offset g' = count_offset g
     \<and> (state g' = GAME_OVER \<or> state g' = state g \<and> hole_hidden g')"
proof (cases "state g = PLAYER_TURN \<and> (\<exists>ch. currentHand g = Some ch \<and> length (hand_cards ch) = 2)
    \<and> surrenderAllowed (settings g)")
  case False
  have "g' = g"
  proof (cases "state g = PLAYER_TURN")
    case no: False
    with assms(2) show ?thesis by (simp add: surrender_def)
  next
    case yes: True
    with assms(2) obtain ch where c: "currentHand g = Some ch"
      and r: "(if length (hand_cards ch) \<noteq> 2 then Some g
               else if \<not> surrenderAllowed (settings g) then Some g
               else let returnAmount = bet ch / 2
                    in handleHandComplete
                         (setCurrentHand (ch\<lparr>isSurrendered := True\<rparr>)
                            (g\<lparr>balance := balance g + returnAmount\<rparr>))) = Some g'"
      by (auto simp add: surrender_def bind_eq_Some_conv split: if_splits)
    from False yes c have "length (hand_cards ch) \<noteq> 2 \<or> \<not> surrenderAllowed (settings g)"
      by auto
    with r show ?thesis by (auto split: if_splits)
  qed
  with assms(1) show ?thesis by simp
next
  case True
  then obtain ch where ch: "currentHand g = Some ch" by blast
  let ?g0 = "g\<lparr>balance := balance g + bet ch / 2\<rparr>"
  let ?g2 = "setCurrentHand (ch\<lparr>isSurrendered := True\<rparr>) ?g0"
  have ch0: "currentHand ?g0 = Some ch"
    using ch by (simp add: currentHand_def split: if_splits)
  have g0: "count_offset ?g0 = count_offset g" "hole_hidden ?g0 = hole_hidden g"
    by (simp_all add: count_offset_def table_weight_def hole_hidden_def)
  have "length (hand_cards ch) = 2" using True ch by auto
  then have r: "handleHandComplete ?g2 = Some g'"
    using True ch assms(2) by (simp add: surrender_def Let_def)
  have g2: "count_offset ?g2 = count_offset g" "state ?g2 = state g" "hole_hidden ?g2"
    using setCurrentHand_same_cards [OF ch0, of "ch\<lparr>isSurrendered := True\<rparr>"] g0 assms(1)
    by (simp_all add: hole_hidden_def)
  from handleHandComplete_count [OF g2(3) r] g2 show ?thesis by simp
qed

lemma double_count:
  assumes "hole_hidden g" and "double g = Some g'"
  shows "count_offset g' = count_offset g
     \<and> (state g' = GAME_OVER \<or> state g' = state g \<and> hole_hidden g')"
proof (cases "state g = PLAYER_TURN \<and> (\<exists>ch. currentHand g = Some ch \<and> Hand_canDouble False ch
    \<and> bet ch \<le> balance g)")
  case False
  have "g' = g"
  proof (cases "state g = PLAYER_TURN")
    case no: False
    with assms(2) show ?thesis by (simp add: double_def)
  next
    case yes: True
    with assms(2) obtain ch where c: "currentHand g = Some ch"
      and r: "(if \<not> Hand_canDouble False ch then Some g
               else if bet ch > balance g then Some g
               else Option.bind
                      (dealCardToHand CurrentHand True
                        (setCurrentHand (ch\<lparr>bet := bet ch * 2, isDoubled := True\<rparr>)
                          (g\<lparr>balance := balance g - bet ch,
                             stats := (stats g)\<lparr>totalWagered :=
                                        totalWagered (stats g) + bet ch\<rparr>\<rparr>)))
                      (\<lambda>g2. Option.bind (currentHand g2) (\<lambda>ch2.
                         handleHandComplete (setCurrentHand (ch2\<lparr>isStood := True\<rparr>) g2))))
              = Some g'"
      by (auto simp add: double_def bind_eq_Some_conv Let_def split: if_splits)
    from False yes c have "\<not> Hand_canDouble False ch \<or> bet ch > balance g"
      by auto
    with r show ?thesis by (auto split: if_splits)
  qed
  with assms(1) show ?thesis by simp
next
  case True
  then obtain ch where ch: "currentHand g = Some ch" "Hand_canDouble False ch" "bet ch \<le> balance g"
    by blast
  let ?g0 = "g\<lparr>balance := balance g - bet ch,
               stats := (stats g)\<lparr>totalWagered := totalWagered (stats g) + bet ch\<rparr>\<rparr>"
  let ?g1 = "setCurrentHand (ch\<lparr>bet := bet ch * 2, isDoubled := True\<rparr>) ?g0"
  have ch0: "currentHand ?g0 = Some ch"
    using ch(1) by (simp add: currentHand_def split: if_splits)
  have g0: "count_offset ?g0 = count_offset g" "hole_hidden ?g0 = hole_hidden g"
    by (simp_all add: count_offset_def table_weight_def hole_hidden_def)
  have g1: "count_offset ?g1 = count_offset g" "state ?g1 = state g" "hole_hidden ?g1"
    using setCurrentHand_same_cards [OF ch0, of "ch\<lparr>bet := bet ch * 2, isDoubled := True\<rparr>"]
      g0 assms(1)
    by (simp_all add: hole_hidden_def)
  have "Option.bind (dealCardToHand CurrentHand True ?g1)
          (\<lambda>g2. Option.bind (currentHand g2) (\<lambda>ch2.
             handleHandComplete (setCurrentHand (ch2\<lparr>isStood := True\<rparr>) g2))) = Some g'"
    using True ch assms(2) by (simp add: double_def Let_def)
  then obtain g2 ch2 where d: "dealCardToHand CurrentHand True ?g1 = Some g2"
    and ch2: "currentHand g2 = Some ch2"
    and r: "handleHandComplete (setCurrentHand (ch2\<lparr>isStood := True\<rparr>) g2) = Some g'"
    unfolding bind_eq_Some_conv by blast
  have g2: "count_offset g2 = count_offset g" "state g2 = state g" "hole_hidden g2"
    using dealCardToHand_count [OF d] dealCardToHand_current_frame [OF d] g1
    by (simp_all add: hole_hidden_def)
  let ?g3 = "setCurrentHand (ch2\<lparr>isStood := True\<rparr>) g2"
  have g3: "count_offset ?g3 = count_offset g" "state ?g3 = state g" "hole_hidden ?g3"
    using setCurrentHand_same_cards [OF ch2, of "ch2\<lparr>isStood := True\<rparr>"] g2
    by (simp_all add: hole_hidden_def)
  from handleHandComplete_count [OF g3(3) r] g3 show ?thesis by simp
qed

lemma hands_weight_insert:
  "sum_list (map f (concat (map hand_cards (take n hs @ [h] @ drop n hs)))) =
     sum_list (map f (concat (map hand_cards hs))) + sum_list (map f (hand_cards h))"
  for f :: "Card \<Rightarrow> int"
proof -
  have "sum_list (map f (concat (map hand_cards hs))) =
      sum_list (map f (concat (map hand_cards (take n hs @ drop n hs))))"
    by simp
  also have "\<dots> = sum_list (map f (concat (map hand_cards (take n hs))))
      + sum_list (map f (concat (map hand_cards (drop n hs))))"
    by (simp only: map_append concat_append sum_list.append)
  finally show ?thesis by simp
qed

lemma hands_weight_split:
  fixes f :: "Card \<Rightarrow> int"
  assumes "i < length hs"
  shows "sum_list (map f (concat (map hand_cards
            (take (Suc i) (hs[i := h1]) @ [h2] @ drop (Suc i) (hs[i := h1]))))) =
     sum_list (map f (concat (map hand_cards hs))) - sum_list (map f (hand_cards (hs ! i)))
       + sum_list (map f (hand_cards h1)) + sum_list (map f (hand_cards h2))"
  unfolding hands_weight_insert hands_weight_update [OF assms] by simp

lemma split_count:
  assumes "hole_hidden g" and "split g = Some g'"
  shows "count_offset g' = count_offset g \<and> state g' = state g \<and> hole_hidden g'"
proof (cases "state g = PLAYER_TURN")
  case False
  with assms show ?thesis by (simp add: split_def)
next
  case True
  have b: "Option.bind (currentHand g) (\<lambda>ch. (if \<not> Hand_canSplit ch then Some g
             else let additionalBet = bet ch
                  in if additionalBet > balance g then Some g
                     else
                       let newHand = addCard (new_Hand\<lparr>bet := additionalBet, isSplit := True\<rparr>)
                                       (last (hand_cards ch));
                           ch1 = ch\<lparr>hand_cards := butlast (hand_cards ch), isSplit := True\<rparr>;
                           hands1 = (playerHands g)[currentHandIndex g := ch1];
                           g1 = g\<lparr>balance := balance g - additionalBet,
                                  stats := (stats g)\<lparr>totalWagered :=
                                             totalWagered (stats g) + additionalBet\<rparr>,
                                  playerHands := take (currentHandIndex g + 1) hands1 @ [newHand]
                                                   @ drop (currentHandIndex g + 1) hands1\<rparr>
                       in dealCardToHand CurrentHand True g1)) = Some g'"
    using assms(2) True by (simp add: split_def)
  from b obtain ch where ch: "currentHand g = Some ch"
    and r: "(if \<not> Hand_canSplit ch then Some g
             else let additionalBet = bet ch
                  in if additionalBet > balance g then Some g
                     else
                       let newHand = addCard (new_Hand\<lparr>bet := additionalBet, isSplit := True\<rparr>)
                                       (last (hand_cards ch));
                           ch1 = ch\<lparr>hand_cards := butlast (hand_cards ch), isSplit := True\<rparr>;
                           hands1 = (playerHands g)[currentHandIndex g := ch1];
                           g1 = g\<lparr>balance := balance g - additionalBet,
                                  stats := (stats g)\<lparr>totalWagered :=
                                             totalWagered (stats g) + additionalBet\<rparr>,
                                  playerHands := take (currentHandIndex g + 1) hands1 @ [newHand]
                                                   @ drop (currentHandIndex g + 1) hands1\<rparr>
                       in dealCardToHand CurrentHand True g1) = Some g'"
    by (rule bind_SomeE)
  show ?thesis
  proof (cases "Hand_canSplit ch \<and> bet ch \<le> balance g")
    case False
    with r have "Some g = Some g'" by (auto simp add: Let_def split: if_splits)
    then have "g' = g" by simp
    with assms(1) show ?thesis by simp
  next
    case ok: True
    have idx: "currentHandIndex g < length (playerHands g)"
      and chi: "playerHands g ! currentHandIndex g = ch"
      using ch by (auto simp add: currentHand_def split: if_splits)
    from ok have "length (hand_cards ch) = 2"
      by (simp add: Hand_canSplit_def split: if_splits)
    then have "hand_cards ch \<noteq> []" by auto
    then have cards: "butlast (hand_cards ch) @ [last (hand_cards ch)] = hand_cards ch"
      by simp
    let ?newHand = "addCard (new_Hand\<lparr>bet := bet ch, isSplit := True\<rparr>) (last (hand_cards ch))"
    let ?ch1 = "ch\<lparr>hand_cards := butlast (hand_cards ch), isSplit := True\<rparr>"
    let ?hands1 = "(playerHands g)[currentHandIndex g := ?ch1]"
    let ?g1 = "g\<lparr>balance := balance g - bet ch,
                 stats := (stats g)\<lparr>totalWagered := totalWagered (stats g) + bet ch\<rparr>,
                 playerHands := take (currentHandIndex g + 1) ?hands1 @ [?newHand]
                                  @ drop (currentHandIndex g + 1) ?hands1\<rparr>"
    from r ok have d: "dealCardToHand CurrentHand True ?g1 = Some g'"
      by (simp add: Let_def)
    have w: "sum_list (map f (hand_cards ch)) =
        sum_list (map f (butlast (hand_cards ch))) + f (last (hand_cards ch))"
      for f :: "Card \<Rightarrow> int"
      by (subst cards [symmetric]) (simp only: map_append sum_list.append, simp)
    have "table_weight ?g1 = table_weight g"
      using hands_weight_split [OF idx, of "card_weight (deck g)" ?ch1 ?newHand] chi
        w [of "card_weight (deck g)"]
      by (simp add: table_weight_def new_Hand_def)
    then have g1: "count_offset ?g1 = count_offset g" "dealerHand ?g1 = dealerHand g"
      "state ?g1 = state g"
      by (simp_all add: count_offset_def)
    from dealCardToHand_count [OF d] dealCardToHand_current_frame [OF d] g1 assms(1)
    show ?thesis by (simp add: hole_hidden_def)
  qed
qed

lemma handleBlackjack_count:
  assumes "hole_hidden g" and "handleBlackjack g = Some g'"
  shows "count_offset g' = count_offset g \<and> state g' = GAME_OVER"
proof -
  from revealHoleCard_hidden [OF assms(1)] obtain g1 where
    g1: "revealHoleCard g = Some g1" "count_offset g1 = count_offset g" by blast
  have frame: "count_offset (endRound (g1\<lparr>balance := b, stats := s\<rparr>)) = count_offset g1"
    "state (endRound (g1\<lparr>balance := b, stats := s\<rparr>)) = GAME_OVER" for b s
    by (simp_all add: endRound_def count_offset_def table_weight_def)
  from assms(2) g1(1) show ?thesis
    by (auto simp add: handleBlackjack_def Let_def frame g1(2) split: option.splits if_splits)
qed

lemma handleInsuranceDecision_count:
  assumes "hole_hidden g" and "handleInsuranceDecision takeInsurance g = Some g'"
  shows "count_offset g' = count_offset g
     \<and> (state g' = GAME_OVER \<or> state g' = state g \<and> hole_hidden g'
        \<or> state g' = PLAYER_TURN \<and> hole_hidden g')"
proof (cases "state g = INSURANCE")
  case False
  with assms show ?thesis by (simp add: handleInsuranceDecision_def)
next
  case True
  have b: "Option.bind (currentHand g) (\<lambda>ch0. (let g1 = (if takeInsurance
                    then (let insuranceAmount = bet ch0 / 2
                          in if insuranceAmount \<le> balance g
                             then setCurrentHand (ch0\<lparr>insuranceBet := insuranceAmount\<rparr>)
                                    (g\<lparr>balance := balance g - insuranceAmount\<rparr>)
                             else g)
                    else g)
          in if isBlackjack (dealerHand g1)
             then
               Option.bind (revealHoleCard g1) (\<lambda>g2.
               Option.bind (currentHand g2) (\<lambda>ch.
                 let g3 = (if insuranceBet ch > 0
                           then g2\<lparr>balance := balance g2 + insuranceBet ch * 3\<rparr> else g2);
                     g4 = (if isBlackjack ch
                           then g3\<lparr>balance := balance g3 + bet ch,
                                   stats := (stats g3)\<lparr>handsPushed := handsPushed (stats g3) + 1\<rparr>\<rparr>
                           else g3\<lparr>stats := (stats g3)\<lparr>handsLost := handsLost (stats g3) + 1,
                                      netProfit := netProfit (stats g3) - bet ch\<rparr>\<rparr>)
                 in Some (endRound g4)))
             else
               Option.bind (currentHand g1) (\<lambda>ch.
                 if isBlackjack ch then handleBlackjack g1
                 else Some (g1\<lparr>state := PLAYER_TURN\<rparr>)))) = Some g'"
    using assms(2) True by (simp add: handleInsuranceDecision_def)
  from b obtain ch0 where ch0: "currentHand g = Some ch0"
    and r: "(let g1 = (if takeInsurance
                    then (let insuranceAmount = bet ch0 / 2
                          in if insuranceAmount \<le> balance g
                             then setCurrentHand (ch0\<lparr>insuranceBet := insuranceAmount\<rparr>)
                                    (g\<lparr>balance := balance g - insuranceAmount\<rparr>)
                             else g)
                    else g)
          in if isBlackjack (dealerHand g1)
             then
               Option.bind (revealHoleCard g1) (\<lambda>g2.
               Option.bind (currentHand g2) (\<lambda>ch.
                 let g3 = (if insuranceBet ch > 0
                           then g2\<lparr>balance := balance g2 + insuranceBet ch * 3\<rparr> else g2);
                     g4 = (if isBlackjack ch
                           then g3\<lparr>balance := balance g3 + bet ch,
                                   stats := (stats g3)\<lparr>handsPushed := handsPushed (stats g3) + 1\<rparr>\<rparr>
                           else g3\<lparr>stats := (stats g3)\<lparr>handsLost := handsLost (stats g3) + 1,
                                      netProfit := netProfit (stats g3) - bet ch\<rparr>\<rparr>)
                 in Some (endRound g4)))
             else
               Option.bind (currentHand g1) (\<lambda>ch.
                 if isBlackjack ch then handleBlackjack g1
                 else Some (g1\<lparr>state := PLAYER_TURN\<rparr>))) = Some g'"
    by (rule bind_SomeE)
  define g1 where "g1 = (if takeInsurance \<and> bet ch0 / 2 \<le> balance g
      then setCurrentHand (ch0\<lparr>insuranceBet := bet ch0 / 2\<rparr>) (g\<lparr>balance := balance g - bet ch0 / 2\<rparr>)
      else g)"
  have cur0: "currentHand (g\<lparr>balance := b\<rparr>) = Some ch0" for b
    using ch0 by (simp add: currentHand_def split: if_splits)
  have off0: "count_offset (g\<lparr>balance := b\<rparr>) = count_offset g" for b
    by (simp add: count_offset_def table_weight_def)
  have g1: "count_offset g1 = count_offset g" "hole_hidden g1" "state g1 = state g"
    using setCurrentHand_same_cards [OF cur0, of "ch0\<lparr>insuranceBet := bet ch0 / 2\<rparr>"] off0
      assms(1)
    by (auto simp add: g1_def hole_hidden_def)
  have r1: "(if isBlackjack (dealerHand g1)
             then
               Option.bind (revealHoleCard g1) (\<lambda>g2.
               Option.bind (currentHand g2) (\<lambda>ch.
                 let g3 = (if insuranceBet ch > 0
                           then g2\<lparr>balance := balance g2 + insuranceBet ch * 3\<rparr> else g2);
                     g4 = (if isBlackjack ch
                           then g3\<lparr>balance := balance g3 + bet ch,
                                   stats := (stats g3)\<lparr>handsPushed := handsPushed (stats g3) + 1\<rparr>\<rparr>
                           else g3\<lparr>stats := (stats g3)\<lparr>handsLost := handsLost (stats g3) + 1,
                                      netProfit := netProfit (stats g3) - bet ch\<rparr>\<rparr>)
                 in Some (endRound g4)))
             else
               Option.bind (currentHand g1) (\<lambda>ch.
                 if isBlackjack ch then handleBlackjack g1
                 else Some (g1\<lparr>state := PLAYER_TURN\<rparr>))) = Some g'"
    using r unfolding g1_def Let_def by (auto split: if_splits)
  show ?thesis
  proof (cases "isBlackjack (dealerHand g1)")
    case True
    with r1 obtain g2 ch where g2: "revealHoleCard g1 = Some g2"
      and fin: "(let g3 = (if insuranceBet ch > 0
                           then g2\<lparr>balance := balance g2 + insuranceBet ch * 3\<rparr> else g2);
                     g4 = (if isBlackjack ch
                           then g3\<lparr>balance := balance g3 + bet ch,
                                   stats := (stats g3)\<lparr>handsPushed := handsPushed (stats g3) + 1\<rparr>\<rparr>
                           else g3\<lparr>stats := (stats g3)\<lparr>handsLost := handsLost (stats g3) + 1,
                                      netProfit := netProfit (stats g3) - bet ch\<rparr>\<rparr>)
                 in Some (endRound g4)) = Some g'"
      by (simp only: if_True) (elim bind_SomeE)
    from revealHoleCard_hidden [OF g1(2)] g2 have o2: "count_offset g2 = count_offset g1"
      by auto
    have "count_offset g' = count_offset g2 \<and> state g' = GAME_OVER"
      using fin
      by (auto simp add: Let_def endRound_def count_offset_def table_weight_def split: if_splits)
    with o2 g1 show ?thesis by simp
  next
    case False
    with r1 obtain ch where
      fin: "(if isBlackjack ch then handleBlackjack g1 else Some (g1\<lparr>state := PLAYER_TURN\<rparr>))
              = Some g'"
      by (simp only: if_False) (elim bind_SomeE)
    show ?thesis
    proof (cases "isBlackjack ch")
      case True
      with fin have "handleBlackjack g1 = Some g'" by simp
      from handleBlackjack_count [OF g1(2) this] g1 show ?thesis by simp
    next
      case False
      with fin have "Some (g1\<lparr>state := PLAYER_TURN\<rparr>) = Some g'" by simp
      then have "g' = g1\<lparr>state := PLAYER_TURN\<rparr>" by simp
      with g1 show ?thesis by (simp add: count_offset_def table_weight_def hole_hidden_def)
    qed
  qed
qed

lemma dealCardToHand_dealer_cards:
  assumes "dealCardToHand DealerHand fu g = Some g'"
  shows "\<exists>c. hand_cards (dealerHand g') = hand_cards (dealerHand g) @ [c\<lparr>faceUp := fu\<rparr>]"
    and "settings g' = settings g"
  using assms
  by (auto simp add: dealCardToHand_def getHand_def putHand_def Let_def
        split: option.splits prod.splits)

lemma deal_count:
  assumes "dealerHoleCard (settings g)" and "currentBet g \<noteq> 0" and "deal rnd g = Some g'"
  shows "count_offset g' = (if needsReshuffle (deck g) then 0 else runningCount (deck g))
     \<and> (state g' \<noteq> GAME_OVER \<longrightarrow> hole_hidden g')"
proof -
  let ?d0 = "if needsReshuffle (deck g) then reshuffle rnd (deck g) else deck g"
  let ?g0 = "g\<lparr>deck := ?d0, state := DEALING,
                playerHands := [new_Hand\<lparr>bet := currentBet g\<rparr>],
                dealerHand := clear (dealerHand g),
                currentHandIndex := 0\<rparr>"
  have g0: "count_offset ?g0 = (if needsReshuffle (deck g) then 0 else runningCount (deck g))"
    "hand_cards (dealerHand ?g0) = []" "settings ?g0 = settings g"
    by (simp_all add: count_offset_def table_weight_def new_Hand_def clear_def reshuffle_def)
  have b: "Option.bind (dealCardToHand CurrentHand True ?g0) (\<lambda>g1.
           Option.bind (dealCardToHand DealerHand True g1) (\<lambda>g2.
           Option.bind (dealCardToHand CurrentHand True g2) (\<lambda>g3.
           Option.bind (dealCardToHand DealerHand (\<not> dealerHoleCard (settings g3)) g3) (\<lambda>g4.
             (case hand_cards (dealerHand g4) of
                [] \<Rightarrow> None
              | dealerUpCard # _ \<Rightarrow>
                  Option.bind (currentHand g4) (\<lambda>ch.
                    if isAce dealerUpCard \<and> insuranceAllowed (settings g4)
                      then Some (g4\<lparr>state := INSURANCE\<rparr>)
                    else if isBlackjack ch then handleBlackjack g4
                    else Some (g4\<lparr>state := PLAYER_TURN\<rparr>))))))) = Some g'"
    using assms(2,3) unfolding deal_def Let_def by (simp only: if_False refl)
  from b obtain g1 where d1: "dealCardToHand CurrentHand True ?g0 = Some g1"
    and b1: "Option.bind (dealCardToHand DealerHand True g1) (\<lambda>g2.
           Option.bind (dealCardToHand CurrentHand True g2) (\<lambda>g3.
           Option.bind (dealCardToHand DealerHand (\<not> dealerHoleCard (settings g3)) g3) (\<lambda>g4.
             (case hand_cards (dealerHand g4) of
                [] \<Rightarrow> None
              | dealerUpCard # _ \<Rightarrow>
                  Option.bind (currentHand g4) (\<lambda>ch.
                    if isAce dealerUpCard \<and> insuranceAllowed (settings g4)
                      then Some (g4\<lparr>state := INSURANCE\<rparr>)
                    else if isBlackjack ch then handleBlackjack g4
                    else Some (g4\<lparr>state := PLAYER_TURN\<rparr>)))))) = Some g'"
    by (rule bind_SomeE)
  from b1 obtain g2 where d2: "dealCardToHand DealerHand True g1 = Some g2"
    and b2: "Option.bind (dealCardToHand CurrentHand True g2) (\<lambda>g3.
           Option.bind (dealCardToHand DealerHand (\<not> dealerHoleCard (settings g3)) g3) (\<lambda>g4.
             (case hand_cards (dealerHand g4) of
                [] \<Rightarrow> None
              | dealerUpCard # _ \<Rightarrow>
                  Option.bind (currentHand g4) (\<lambda>ch.
                    if isAce dealerUpCard \<and> insuranceAllowed (settings g4)
                      then Some (g4\<lparr>state := INSURANCE\<rparr>)
                    else if isBlackjack ch then handleBlackjack g4
                    else Some (g4\<lparr>state := PLAYER_TURN\<rparr>))))) = Some g'"
    by (rule bind_SomeE)
  from b2 obtain g3 where d3: "dealCardToHand CurrentHand True g2 = Some g3"
    and b3: "Option.bind (dealCardToHand DealerHand (\<not> dealerHoleCard (settings g3)) g3) (\<lambda>g4.
             (case hand_cards (dealerHand g4) of
                [] \<Rightarrow> None
              | dealerUpCard # _ \<Rightarrow>
                  Option.bind (currentHand g4) (\<lambda>ch.
                    if isAce dealerUpCard \<and> insuranceAllowed (settings g4)
                      then Some (g4\<lparr>state := INSURANCE\<rparr>)
                    else if isBlackjack ch then handleBlackjack g4
                    else Some (g4\<lparr>state := PLAYER_TURN\<rparr>)))) = Some g'"
    by (rule bind_SomeE)
  from b3 obtain g4 where d4: "dealCardToHand DealerHand (\<not> dealerHoleCard (settings g3)) g3 = Some g4"
    and b4: "(case hand_cards (dealerHand g4) of
                [] \<Rightarrow> None
              | dealerUpCard # _ \<Rightarrow>
                  Option.bind (currentHand g4) (\<lambda>ch.
                    if isAce dealerUpCard \<and> insuranceAllowed (settings g4)
                      then Some (g4\<lparr>state := INSURANCE\<rparr>)
                    else if isBlackjack ch then handleBlackjack g4
                    else Some (g4\<lparr>state := PLAYER_TURN\<rparr>))) = Some g'"
    by (rule bind_SomeE)
  have s3: "settings g3 = settings g"
    using dealCardToHand_current_frame(3) [OF d1] dealCardToHand_dealer_cards(2) [OF d2]
      dealCardToHand_current_frame(3) [OF d3] g0(3)
    by simp
  then have d4': "dealCardToHand DealerHand False g3 = Some g4"
    using d4 assms(1) by simp
  have off: "count_offset g4 = count_offset ?g0"
    using dealCardToHand_count [OF d1] dealCardToHand_count [OF d2] dealCardToHand_count [OF d3]
      dealCardToHand_count [OF d4]
    by simp
  obtain c0 where c0: "hand_cards (dealerHand g3) = [c0\<lparr>faceUp := True\<rparr>]"
    using dealCardToHand_current_frame(1) [OF d1] dealCardToHand_dealer_cards(1) [OF d2]
      dealCardToHand_current_frame(1) [OF d3] g0(2)
    by auto
  obtain c1 where c1: "hand_cards (dealerHand g4) = [c0\<lparr>faceUp := True\<rparr>, c1\<lparr>faceUp := False\<rparr>]"
    using dealCardToHand_dealer_cards(1) [OF d4'] c0 by auto
  then have hid: "hole_hidden g4" by (simp add: hole_hidden_def)
  from b4 c1 obtain ch where
    fin: "(if isAce (c0\<lparr>faceUp := True\<rparr>) \<and> insuranceAllowed (settings g4)
             then Some (g4\<lparr>state := INSURANCE\<rparr>)
           else if isBlackjack ch then handleBlackjack g4
           else Some (g4\<lparr>state := PLAYER_TURN\<rparr>)) = Some g'"
    by (simp only: list.case) (elim bind_SomeE)
  have st: "count_offset (g4\<lparr>state := s\<rparr>) = count_offset g4"
    "hole_hidden (g4\<lparr>state := s\<rparr>)" for s
    using hid by (simp_all add: count_offset_def table_weight_def hole_hidden_def)
  show ?thesis
  proof (cases "isAce (c0\<lparr>faceUp := True\<rparr>) \<and> insuranceAllowed (settings g4)")
    case True
    with fin have "Some (g4\<lparr>state := INSURANCE\<rparr>) = Some g'" by simp
    then have "g' = g4\<lparr>state := INSURANCE\<rparr>" by simp
    with st off g0(1) show ?thesis by simp
  next
    case no_insurance: False
    show ?thesis
    proof (cases "isBlackjack ch")
      case True
      with fin no_insurance have "handleBlackjack g4 = Some g'" by simp
      from handleBlackjack_count [OF hid this] off g0(1) show ?thesis by simp
    next
      case False
      with fin no_insurance have "Some (g4\<lparr>state := PLAYER_TURN\<rparr>) = Some g'" by simp
      then have "g' = g4\<lparr>state := PLAYER_TURN\<rparr>" by simp
      with st off g0(1) show ?thesis by simp
    qed
  qed
qed

text \<open>
  With the dealer's second card dealt face-down, the running count moves with the cards on
  the table through a whole round. \<open>deal\<close> starts it at the running count of the shoe (0
  after a reshuffle) and hides the hole card; every action of the player and the insurance
  decision keep the difference, and keep the hole card hidden until the round is over.
\<close>

lemma round_keeps_count_offset:
  assumes "hole_hidden g"
  shows "hit g = Some g' \<longrightarrow>
           count_offset g' = count_offset g \<and> (state g' \<noteq> GAME_OVER \<longrightarrow> hole_hidden g')"
    and "stand g = Some g' \<longrightarrow>
           count_offset g' = count_offset g \<and> (state g' \<noteq> GAME_OVER \<longrightarrow> hole_hidden g')"
    and "double g = Some g' \<longrightarrow>
           count_offset g' = count_offset g \<and> (state g' \<noteq> GAME_OVER \<longrightarrow> hole_hidden g')"
    and "split g = Some g' \<longrightarrow>
           count_offset g' = count_offset g \<and> (state g' \<noteq> GAME_OVER \<longrightarrow> hole_hidden g')"
    and "surrender g = Some g' \<longrightarrow>
           count_offset g' = count_offset g \<and> (state g' \<noteq> GAME_OVER \<longrightarrow> hole_hidden g')"
    and "handleInsuranceDecision takeInsurance g = Some g' \<longrightarrow>
           count_offset g' = count_offset g \<and> (state g' \<noteq> GAME_OVER \<longrightarrow> hole_hidden g')"
  using hit_count [OF assms, of g'] stand_count [OF assms, of g'] double_count [OF assms, of g']
    split_count [OF assms, of g'] surrender_count [OF assms, of g']
    handleInsuranceDecision_count [OF assms, of takeInsurance g']
  by auto

end
